theory Spec2Isabelle
  imports
    Main
    "HOL-Library.List_Lexorder"
    "HOL-Library.Product_Lexorder"
    "HOL-Library.Multiset"
begin

section \<open>Python strings\<close>

text \<open>
  A Python \<^verbatim>\<open>str\<close> is a sequence of Unicode code points: \<^verbatim>\<open>len\<close> counts code points and
  \<^verbatim>\<open>strip\<close> removes code points. A string is therefore a list of code points, each a
  natural number. SQLite compares \<^verbatim>\<open>TEXT\<close> values bytewise on their UTF-8 encoding, which
  orders strings as the lexicographic order on code points does, so the list order of
  \<^verbatim>\<open>List_Lexorder\<close> is the order of \<^verbatim>\<open>ORDER BY\<close> on a text column.
\<close>

type_synonym str = "nat list"

definition lit :: "string \<Rightarrow> str" where
  \<comment> \<open>an ASCII literal of the source, as code points\<close>
  "lit s = map of_char s"

definition isspace :: "nat \<Rightarrow> bool" where
  \<comment> \<open>the code points that \<^verbatim>\<open>str.strip()\<close> removes when called without an argument\<close>
  "isspace c \<longleftrightarrow>
     (9 \<le> c \<and> c \<le> 13) \<or> (28 \<le> c \<and> c \<le> 32) \<or> c = 133 \<or> c = 160 \<or> c = 5760 \<or>
     (8192 \<le> c \<and> c \<le> 8202) \<or> c = 8232 \<or> c = 8233 \<or> c = 8239 \<or> c = 8287 \<or> c = 12288"

definition strip :: "str \<Rightarrow> str" where
  "strip s = rev (dropWhile isspace (rev (dropWhile isspace s)))"

definition truthy :: "str option \<Rightarrow> bool" where
  \<comment> \<open>Python truth value of an \<^verbatim>\<open>Optional[str]\<close>: \<^verbatim>\<open>None\<close> and \<^verbatim>\<open>""\<close> are false\<close>
  "truthy x \<longleftrightarrow> (case x of None \<Rightarrow> False | Some s \<Rightarrow> s \<noteq> [])"


section \<open>The store: tables \<^verbatim>\<open>games\<close> and \<^verbatim>\<open>highscores\<close>\<close>

text \<open>
  Schema of \<^verbatim>\<open>alembic/versions/001_initial_schema.py\<close>. A table is the list of its rows in
  insertion order. SQLite does not enforce the foreign key of \<^verbatim>\<open>highscores.game_id\<close>
  unless asked to, and the code never asks.
\<close>

record game =
  g_id :: int
  g_public_id :: str
  g_name :: str
  g_email :: str
  g_api_key :: str
  g_created_at :: str

record highscore =
  h_id :: int
  h_game_id :: int
  h_player_name :: str
  h_score :: int
  h_created_at :: str

record db =
  games :: "game list"
  highscores :: "highscore list"

definition empty_db :: db where
  "empty_db = \<lparr>games = [], highscores = []\<rparr>"

definition next_rowid :: "int list \<Rightarrow> int" where
  \<comment> \<open>an \<^verbatim>\<open>INTEGER PRIMARY KEY\<close> left out of an \<^verbatim>\<open>INSERT\<close>: one more than the largest
      key in the table, 1 in an empty table\<close>
  "next_rowid ids = fold max ids 0 + 1"

definition get_game_by_public_id :: "db \<Rightarrow> str \<Rightarrow> game option" where
  \<comment> \<open>\<^verbatim>\<open>SELECT * FROM games WHERE public_id = ?\<close> and \<^verbatim>\<open>fetchone()\<close>\<close>
  "get_game_by_public_id conn public_id =
     find (\<lambda>g. g_public_id g = public_id) (games conn)"


section \<open>Errors\<close>

datatype error =
    NotFound          \<comment> \<open>\<^verbatim>\<open>HTTPException(status_code=404)\<close>\<close>
  | Unauthorized      \<comment> \<open>\<^verbatim>\<open>HTTPException(status_code=401)\<close>\<close>
  | Forbidden         \<comment> \<open>\<^verbatim>\<open>HTTPException(status_code=403)\<close>\<close>
  | ValidationError   \<comment> \<open>a parameter or body rejected by its declared type, before the handler runs\<close>
  | IntegrityError    \<comment> \<open>\<^verbatim>\<open>sqlite3.IntegrityError\<close>, not caught by the handler\<close>

fun status_code :: "error \<Rightarrow> nat" where
  "status_code NotFound = 404"
| "status_code Unauthorized = 401"
| "status_code Forbidden = 403"
| "status_code ValidationError = 422"
| "status_code IntegrityError = 500"


section \<open>Request and response models (\<^verbatim>\<open>app/models.py\<close>)\<close>

text \<open>
  A request body is taken after parsing, with a string and an integer in its two fields;
  \<^verbatim>\<open>HighscoreIn_valid\<close> is the check of the declared lengths and bounds. The query parameter
  \<^verbatim>\<open>limit\<close> is an integer when present.
\<close>

record GameCreate =
  gc_name :: str
  gc_email :: str

record GameOut =
  go_public_id :: str
  go_name :: str
  go_email :: str
  go_api_key :: str
  go_created_at :: str

record GameInfo =
  gi_public_id :: str
  gi_name :: str
  gi_created_at :: str

record HighscoreIn =
  hi_player_name :: str
  hi_score :: int

record HighscoreOut =
  ho_player_name :: str
  ho_score :: int
  ho_created_at :: str

record HighscoreList =
  hl_game_id :: str
  hl_highscores :: "HighscoreOut list"

record DeletedOut =
  do_ok :: bool
  do_deleted :: nat

definition HighscoreIn_valid :: "HighscoreIn \<Rightarrow> bool" where
  \<comment> \<open>\<^verbatim>\<open>constr(min_length=1, max_length=32)\<close> and \<^verbatim>\<open>conint(ge=0, le=1_000_000_000)\<close>\<close>
  "HighscoreIn_valid hs \<longleftrightarrow>
     1 \<le> length (hi_player_name hs) \<and> length (hi_player_name hs) \<le> 32 \<and>
     0 \<le> hi_score hs \<and> hi_score hs \<le> 1000000000"

definition Query_limit :: "int option \<Rightarrow> error + int" where
  \<comment> \<open>\<^verbatim>\<open>limit: int = Query(10, ge=1, le=50)\<close>; \<^verbatim>\<open>None\<close> is the parameter left out\<close>
  "Query_limit q =
     (case q of
        None \<Rightarrow> Inr 10
      | Some n \<Rightarrow> if 1 \<le> n \<and> n \<le> 50 then Inr n else Inl ValidationError)"


section \<open>Authentication and authorization (\<^verbatim>\<open>app/auth.py\<close>)\<close>

text \<open>
  \<^verbatim>\<open>ADMIN_TOKEN\<close> is read from the environment when the module is loaded; it is a parameter
  of every function that reads it.
\<close>

definition generate_api_key :: "str \<Rightarrow> str" where
  \<comment> \<open>the argument is the value of \<^verbatim>\<open>secrets.token_urlsafe(32)\<close>\<close>
  "generate_api_key token = lit ''sk_'' @ token"

definition require_admin_token :: "str \<Rightarrow> str option \<Rightarrow> error + unit" where
  "require_admin_token ADMIN_TOKEN x_admin_token =
     (if x_admin_token \<noteq> Some ADMIN_TOKEN then Inl Unauthorized else Inr ())"

definition verify_game_ownership_or_admin ::
  "str \<Rightarrow> db \<Rightarrow> str \<Rightarrow> str option \<Rightarrow> str option \<Rightarrow> error + game" where
  "verify_game_ownership_or_admin ADMIN_TOKEN conn public_id x_api_key x_admin_token =
     (case get_game_by_public_id conn public_id of
        None \<Rightarrow> Inl NotFound
      | Some game \<Rightarrow>
          if x_admin_token = Some ADMIN_TOKEN then Inr game
          else if truthy x_api_key \<and> x_api_key = Some (g_api_key game) then Inr game
          else Inl Forbidden)"


section \<open>Endpoints (\<^verbatim>\<open>app/main.py\<close>)\<close>

text \<open>
  An endpoint takes the store and returns an error, or the store after the request together
  with the response body. A request whose handler raises closes the connection without a
  commit, so the store is unchanged. The framework checks the declared parameter and body
  types before it calls the handler; that check is the first step of each endpoint here.
  The clock reading \<^verbatim>\<open>datetime.utcnow().isoformat()\<close> and the random tokens are arguments.
\<close>

definition create_game ::
  "(str \<Rightarrow> str option) \<Rightarrow> (str \<Rightarrow> str) \<Rightarrow> db \<Rightarrow> GameCreate \<Rightarrow> str \<Rightarrow> str \<Rightarrow> str
     \<Rightarrow> error + (db \<times> GameOut)" where
  \<comment> \<open>\<^verbatim>\<open>EmailStr\<close> is the address validator of the body type (the normalised address, or
      \<^verbatim>\<open>None\<close>), \<^verbatim>\<open>lower\<close> is \<^verbatim>\<open>str.lower\<close>, \<^verbatim>\<open>uuid_hex\<close> is \<^verbatim>\<open>uuid.uuid4().hex\<close>\<close>
  "create_game EmailStr lower conn game uuid_hex token now =
     (case EmailStr (gc_email game) of
        None \<Rightarrow> Inl ValidationError
      | Some email \<Rightarrow>
          if \<not> (1 \<le> length (gc_name game) \<and> length (gc_name game) \<le> 100)
          then Inl ValidationError
          else
            let public_id = lit ''g_'' @ take 16 uuid_hex;
                api_key = generate_api_key token
            in if public_id \<in> set (map g_public_id (games conn))
                  \<or> api_key \<in> set (map g_api_key (games conn))
               then Inl IntegrityError
               else Inr
                 (conn\<lparr>games := games conn @
                    [\<lparr>g_id = next_rowid (map g_id (games conn)),
                      g_public_id = public_id,
                      g_name = strip (gc_name game),
                      g_email = lower email,
                      g_api_key = api_key,
                      g_created_at = now\<rparr>]\<rparr>,
                  \<lparr>go_public_id = public_id,
                   go_name = strip (gc_name game),
                   go_email = lower email,
                   go_api_key = api_key,
                   go_created_at = now\<rparr>))"

definition submit_highscore ::
  "db \<Rightarrow> str \<Rightarrow> HighscoreIn \<Rightarrow> str \<Rightarrow> error + (db \<times> HighscoreOut)" where
  "submit_highscore conn public_id hs now =
     (if \<not> HighscoreIn_valid hs then Inl ValidationError
      else
        case get_game_by_public_id conn public_id of
          None \<Rightarrow> Inl NotFound
        | Some game \<Rightarrow>
            Inr
              (conn\<lparr>highscores := highscores conn @
                 [\<lparr>h_id = next_rowid (map h_id (highscores conn)),
                   h_game_id = g_id game,
                   h_player_name = strip (hi_player_name hs),
                   h_score = hi_score hs,
                   h_created_at = now\<rparr>]\<rparr>,
               \<lparr>ho_player_name = strip (hi_player_name hs),
                ho_score = hi_score hs,
                ho_created_at = now\<rparr>))"

definition rank_key :: "highscore \<Rightarrow> int \<times> str" where
  \<comment> \<open>\<^verbatim>\<open>ORDER BY score DESC, created_at ASC\<close> as one ascending key\<close>
  "rank_key r = (- h_score r, h_created_at r)"

definition sql_limit :: "int \<Rightarrow> 'a list \<Rightarrow> 'a list" where
  \<comment> \<open>\<^verbatim>\<open>LIMIT n\<close>: a negative \<^verbatim>\<open>n\<close> is no limit in SQLite\<close>
  "sql_limit n xs = (if n < 0 then xs else take (nat n) xs)"

definition select_top :: "db \<Rightarrow> int \<Rightarrow> int \<Rightarrow> highscore list" where
  \<comment> \<open>the rows of the query of \<^verbatim>\<open>get_highscores\<close>. SQLite leaves the order of rows with
      equal score and equal \<^verbatim>\<open>created_at\<close> open; the stable sort keeps them in insertion
      order, and no statement below depends on it\<close>
  "select_top conn gid n =
     sql_limit n (sort_key rank_key (filter (\<lambda>r. h_game_id r = gid) (highscores conn)))"

definition HighscoreOut_of :: "highscore \<Rightarrow> HighscoreOut" where
  "HighscoreOut_of row =
     \<lparr>ho_player_name = h_player_name row,
      ho_score = h_score row,
      ho_created_at = h_created_at row\<rparr>"

definition get_highscores :: "db \<Rightarrow> str \<Rightarrow> int option \<Rightarrow> error + HighscoreList" where
  "get_highscores conn public_id limit =
     (case Query_limit limit of
        Inl e \<Rightarrow> Inl e
      | Inr n \<Rightarrow>
          (case get_game_by_public_id conn public_id of
             None \<Rightarrow> Inl NotFound
           | Some game \<Rightarrow>
               Inr \<lparr>hl_game_id = public_id,
                    hl_highscores = map HighscoreOut_of (select_top conn (g_id game) n)\<rparr>))"

definition GameInfo_of :: "game \<Rightarrow> GameInfo" where
  "GameInfo_of row =
     \<lparr>gi_public_id = g_public_id row,
      gi_name = g_name row,
      gi_created_at = g_created_at row\<rparr>"

definition list_games :: "str \<Rightarrow> db \<Rightarrow> str option \<Rightarrow> error + GameInfo list" where
  \<comment> \<open>\<^verbatim>\<open>ORDER BY created_at ASC\<close>; games with equal \<^verbatim>\<open>created_at\<close> are kept in insertion order\<close>
  "list_games ADMIN_TOKEN conn x_admin_token =
     (case require_admin_token ADMIN_TOKEN x_admin_token of
        Inl e \<Rightarrow> Inl e
      | Inr _ \<Rightarrow> Inr (map GameInfo_of (sort_key g_created_at (games conn))))"

definition get_game :: "str \<Rightarrow> db \<Rightarrow> str \<Rightarrow> str option \<Rightarrow> error + GameInfo" where
  "get_game ADMIN_TOKEN conn public_id x_admin_token =
     (case require_admin_token ADMIN_TOKEN x_admin_token of
        Inl e \<Rightarrow> Inl e
      | Inr _ \<Rightarrow>
          (case get_game_by_public_id conn public_id of
             None \<Rightarrow> Inl NotFound
           | Some game \<Rightarrow> Inr (GameInfo_of game)))"

definition delete_highscores ::
  "str \<Rightarrow> db \<Rightarrow> str \<Rightarrow> str option \<Rightarrow> str option \<Rightarrow> error + (db \<times> DeletedOut)" where
  "delete_highscores ADMIN_TOKEN conn public_id x_api_key x_admin_token =
     (case verify_game_ownership_or_admin ADMIN_TOKEN conn public_id x_api_key x_admin_token of
        Inl e \<Rightarrow> Inl e
      | Inr game \<Rightarrow>
          Inr
            (conn\<lparr>highscores := filter (\<lambda>r. h_game_id r \<noteq> g_id game) (highscores conn)\<rparr>,
             \<lparr>do_ok = True,
              do_deleted = length (filter (\<lambda>r. h_game_id r = g_id game) (highscores conn))\<rparr>))"

definition delete_game ::
  "str \<Rightarrow> db \<Rightarrow> str \<Rightarrow> str option \<Rightarrow> str option \<Rightarrow> error + (db \<times> bool)" where
  \<comment> \<open>the response body is \<^verbatim>\<open>{"ok": True}\<close>\<close>
  "delete_game ADMIN_TOKEN conn public_id x_api_key x_admin_token =
     (case verify_game_ownership_or_admin ADMIN_TOKEN conn public_id x_api_key x_admin_token of
        Inl e \<Rightarrow> Inl e
      | Inr game \<Rightarrow>
          Inr
            (conn\<lparr>highscores := filter (\<lambda>r. h_game_id r \<noteq> g_id game) (highscores conn),
                  games := filter (\<lambda>g. g_id g \<noteq> g_id game) (games conn)\<rparr>,
             True))"


section \<open>Response bodies\<close>

text \<open>
  A response model is sent as a JSON object with one member for each field of the model, in
  the order of the fields; the two deletions return their dictionaries as they are.
\<close>

datatype json =
    JStr str
  | JInt int
  | JBool bool
  | JArr "json list"
  | JObj "(string \<times> json) list"

primrec json_keys :: "json \<Rightarrow> string list" where
  "json_keys (JStr s) = []"
| "json_keys (JInt i) = []"
| "json_keys (JBool b) = []"
| "json_keys (JArr xs) = concat (map json_keys xs)"
| "json_keys (JObj kvs) = concat (map (\<lambda>kv. fst kv # snd kv) (map (map_prod id json_keys) kvs))"

definition GameOut_json :: "GameOut \<Rightarrow> json" where
  "GameOut_json g = JObj
     [(''public_id'', JStr (go_public_id g)), (''name'', JStr (go_name g)),
      (''email'', JStr (go_email g)), (''api_key'', JStr (go_api_key g)),
      (''created_at'', JStr (go_created_at g))]"

definition GameInfo_json :: "GameInfo \<Rightarrow> json" where
  "GameInfo_json g = JObj
     [(''public_id'', JStr (gi_public_id g)), (''name'', JStr (gi_name g)),
      (''created_at'', JStr (gi_created_at g))]"

definition HighscoreOut_json :: "HighscoreOut \<Rightarrow> json" where
  "HighscoreOut_json h = JObj
     [(''player_name'', JStr (ho_player_name h)), (''score'', JInt (ho_score h)),
      (''created_at'', JStr (ho_created_at h))]"

definition HighscoreList_json :: "HighscoreList \<Rightarrow> json" where
  "HighscoreList_json l = JObj
     [(''game_id'', JStr (hl_game_id l)),
      (''highscores'', JArr (map HighscoreOut_json (hl_highscores l)))]"

definition DeletedOut_json :: "DeletedOut \<Rightarrow> json" where
  "DeletedOut_json d = JObj [(''ok'', JBool (do_ok d)), (''deleted'', JInt (int (do_deleted d)))]"

definition ok_json :: "bool \<Rightarrow> json" where
  "ok_json b = JObj [(''ok'', JBool b)]"


section \<open>Invariants of the store\<close>

text \<open>
  The primary key of \<^verbatim>\<open>games\<close>, the \<^verbatim>\<open>UNIQUE\<close> constraints on \<^verbatim>\<open>public_id\<close> and \<^verbatim>\<open>api_key\<close>, and
  the fact that every stored key was made by \<^verbatim>\<open>generate_api_key\<close> and so is not empty.
\<close>

definition wf_db :: "db \<Rightarrow> bool" where
  "wf_db conn \<longleftrightarrow>
     distinct (map g_id (games conn)) \<and>
     distinct (map g_public_id (games conn)) \<and>
     distinct (map g_api_key (games conn)) \<and>
     (\<forall>g \<in> set (games conn). g_api_key g \<noteq> [])"

text \<open>Every stored player name is a result of \<^verbatim>\<open>strip\<close>.\<close>

definition names_trimmed :: "db \<Rightarrow> bool" where
  "names_trimmed conn \<longleftrightarrow>
     (\<forall>r \<in> set (highscores conn). strip (h_player_name r) = h_player_name r)"

text \<open>
  The ranking in the words of the specification: the higher score first, and among equal
  scores the earlier \<^verbatim>\<open>created_at\<close> first.
\<close>

definition ranks_before :: "highscore \<Rightarrow> highscore \<Rightarrow> bool" where
  "ranks_before r r' \<longleftrightarrow>
     h_score r' < h_score r \<or> (h_score r = h_score r' \<and> h_created_at r \<le> h_created_at r')"

text \<open>
  The store with the secret columns of every game replaced: a response that is the same on
  both stores does not depend on any \<^verbatim>\<open>api_key\<close> or \<^verbatim>\<open>email\<close>.
\<close>

definition with_secrets :: "(game \<Rightarrow> str) \<Rightarrow> (game \<Rightarrow> str) \<Rightarrow> db \<Rightarrow> db" where
  "with_secrets key mail conn =
     conn\<lparr>games := map (\<lambda>g. g\<lparr>g_api_key := key g, g_email := mail g\<rparr>) (games conn)\<rparr>"


section \<open>A store with two games, for concrete runs\<close>

definition admin_secret :: str where
  "admin_secret = lit ''change-me''"

definition game_T :: game where
  "game_T = \<lparr>g_id = 1, g_public_id = lit ''g_0123456789abcdef'', g_name = lit ''Tetris'',
      g_email = lit ''t@example.org'', g_api_key = lit ''sk_key-of-T'',
      g_created_at = lit ''2025-11-16T10:00:00''\<rparr>"

definition game_U :: game where
  "game_U = \<lparr>g_id = 2, g_public_id = lit ''g_fedcba9876543210'', g_name = lit ''Pong'',
      g_email = lit ''u@example.org'', g_api_key = lit ''sk_key-of-U'',
      g_created_at = lit ''2025-11-16T10:05:00.250000''\<rparr>"

definition demo_db :: db where
  "demo_db = \<lparr>games = [game_T, game_U],
     highscores =
       [\<lparr>h_id = 1, h_game_id = 1, h_player_name = lit ''A'', h_score = 50,
          h_created_at = lit ''2025-11-16T11:00:00''\<rparr>,
        \<lparr>h_id = 2, h_game_id = 2, h_player_name = lit ''Z'', h_score = 7,
          h_created_at = lit ''2025-11-16T11:00:01''\<rparr>,
        \<lparr>h_id = 3, h_game_id = 1, h_player_name = lit ''B'', h_score = 90,
          h_created_at = lit ''2025-11-16T11:00:02''\<rparr>,
        \<lparr>h_id = 4, h_game_id = 1, h_player_name = lit ''C'', h_score = 90,
          h_created_at = lit ''2025-11-16T11:00:02.000001''\<rparr>]\<rparr>"

definition demo_db_scores_of_T_deleted :: db where
  "demo_db_scores_of_T_deleted = \<lparr>games = [game_T, game_U],
     highscores =
       [\<lparr>h_id = 2, h_game_id = 2, h_player_name = lit ''Z'', h_score = 7,
          h_created_at = lit ''2025-11-16T11:00:01''\<rparr>]\<rparr>"

definition demo_db_T_deleted :: db where
  "demo_db_T_deleted = \<lparr>games = [game_U],
     highscores =
       [\<lparr>h_id = 2, h_game_id = 2, h_player_name = lit ''Z'', h_score = 7,
          h_created_at = lit ''2025-11-16T11:00:01''\<rparr>]\<rparr>"

definition demo_db_Ann_submitted :: db where
  "demo_db_Ann_submitted = \<lparr>games = [game_T, game_U],
     highscores =
       [\<lparr>h_id = 1, h_game_id = 1, h_player_name = lit ''A'', h_score = 50,
          h_created_at = lit ''2025-11-16T11:00:00''\<rparr>,
        \<lparr>h_id = 2, h_game_id = 2, h_player_name = lit ''Z'', h_score = 7,
          h_created_at = lit ''2025-11-16T11:00:01''\<rparr>,
        \<lparr>h_id = 3, h_game_id = 1, h_player_name = lit ''B'', h_score = 90,
          h_created_at = lit ''2025-11-16T11:00:02''\<rparr>,
        \<lparr>h_id = 4, h_game_id = 1, h_player_name = lit ''C'', h_score = 90,
          h_created_at = lit ''2025-11-16T11:00:02.000001''\<rparr>,
        \<lparr>h_id = 5, h_game_id = 1, h_player_name = lit ''Ann'', h_score = 10,
          h_created_at = lit ''2025-11-16T12:00:00''\<rparr>]\<rparr>"


section \<open>Lists and row identifiers\<close>

lemma find_SomeD: "find P xs = Some x \<Longrightarrow> x \<in> set xs \<and> P x"
  by (induction xs) (auto split: if_splits)

lemma distinct_map_eqD:
  "distinct (map f xs) \<Longrightarrow> x \<in> set xs \<Longrightarrow> y \<in> set xs \<Longrightarrow> f x = f y \<Longrightarrow> x = y"
  by (meson distinct_map inj_onD)

lemma find_filter_same:
  "(\<And>x. x \<in> set xs \<Longrightarrow> P x \<Longrightarrow> Q x) \<Longrightarrow> find P (filter Q xs) = find P xs"
  by (induction xs) auto

lemma find_filter_None:
  "(\<And>x. x \<in> set xs \<Longrightarrow> P x \<Longrightarrow> \<not> Q x) \<Longrightarrow> find P (filter Q xs) = None"
  by (induction xs) auto

lemma fold_max_ge: "a \<le> fold max xs (a::int)"
  by (induction xs arbitrary: a) (auto intro: order_trans[OF max.cobounded2])

lemma fold_max_upper: "x \<in> set xs \<Longrightarrow> x \<le> fold max xs (a::int)"
  by (induction xs arbitrary: a) (auto intro: order_trans[OF max.cobounded1 fold_max_ge])

lemma next_rowid_fresh: "next_rowid ids \<notin> set ids"
  using fold_max_upper[of "next_rowid ids" ids 0] by (auto simp: next_rowid_def)

lemma sorted_wrt_take_drop:
  assumes "sorted_wrt P xs"
  shows "sorted_wrt P (take k xs) \<and> (\<forall>x \<in> set (take k xs). \<forall>y \<in> set (drop k xs). P x y)"
proof -
  from assms have "sorted_wrt P (take k xs @ drop k xs)" by simp
  then show ?thesis unfolding sorted_wrt_append by blast
qed


section \<open>\<^verbatim>\<open>strip\<close> removes the surrounding whitespace and nothing else\<close>

lemma dropWhile_strip:
  "dropWhile isspace s = strip s @ rev (takeWhile isspace (rev (dropWhile isspace s)))"
proof -
  let ?d = "dropWhile isspace s"
  have a: "rev (takeWhile isspace (rev ?d) @ dropWhile isspace (rev ?d)) = ?d"
    by (simp only: takeWhile_dropWhile_id rev_rev_ident)
  have b: "rev (takeWhile isspace (rev ?d) @ dropWhile isspace (rev ?d)) =
      strip s @ rev (takeWhile isspace (rev ?d))"
    by (simp only: rev_append strip_def)
  show ?thesis by (rule trans[OF a[symmetric] b])
qed

lemma strip_decomp:
  "\<exists>pre suf. s = pre @ strip s @ suf \<and> (\<forall>c \<in> set pre. isspace c) \<and> (\<forall>c \<in> set suf. isspace c)"
proof -
  let ?d = "dropWhile isspace s"
  let ?suf = "rev (takeWhile isspace (rev ?d))"
  have "s = takeWhile isspace s @ ?d" by simp
  also have "?d = strip s @ ?suf" by (rule dropWhile_strip)
  finally have 1: "s = takeWhile isspace s @ strip s @ ?suf" .
  have 3: "\<forall>c \<in> set (takeWhile isspace s). isspace c"
    by (auto dest: set_takeWhileD)
  have 4: "\<forall>c \<in> set ?suf. isspace c"
    by (auto dest: set_takeWhileD)
  from 1 3 4 show ?thesis by blast
qed

lemma strip_last: "strip s \<noteq> [] \<Longrightarrow> \<not> isspace (last (strip s))"
  unfolding strip_def by (simp add: last_rev hd_dropWhile)

lemma strip_hd: "strip s \<noteq> [] \<Longrightarrow> \<not> isspace (hd (strip s))"
proof -
  assume ne: "strip s \<noteq> []"
  let ?d = "dropWhile isspace s"
  from ne dropWhile_strip[of s] have "hd ?d = hd (strip s)" and "?d \<noteq> []"
    by (metis hd_append2, metis append_is_Nil_conv)
  then show ?thesis using hd_dropWhile[of isspace s] by simp
qed

lemma strip_idem: "strip (strip s) = strip s"
proof (cases "strip s = []")
  case True
  have "strip [] = []" by (simp add: strip_def)
  with True show ?thesis by simp
next
  case False
  then have h: "\<not> isspace (hd (strip s))" and l: "\<not> isspace (last (strip s))"
    by (simp_all add: strip_hd strip_last)
  from False h have 1: "dropWhile isspace (strip s) = strip s"
    by (cases "strip s") auto
  from False l have 2: "dropWhile isspace (rev (strip s)) = rev (strip s)"
    by (cases "rev (strip s)") (auto simp: hd_rev[symmetric])
  show ?thesis
    unfolding strip_def[of "strip s"] 1 2 by simp
qed


section \<open>Lookup and the guard\<close>

lemma lookup_in_games:
  "get_game_by_public_id conn public_id = Some g \<Longrightarrow> g \<in> set (games conn) \<and> g_public_id g = public_id"
  unfolding get_game_by_public_id_def by (rule find_SomeD)

lemma generate_api_key_nonempty: "generate_api_key token \<noteq> []"
  by (simp add: generate_api_key_def lit_def)

lemma verify_cases:
  "verify_game_ownership_or_admin A conn public_id k a =
     (case get_game_by_public_id conn public_id of
        None \<Rightarrow> Inl NotFound
      | Some game \<Rightarrow>
          if a = Some A \<or> (k = Some (g_api_key game) \<and> g_api_key game \<noteq> [])
          then Inr game else Inl Forbidden)"
  by (auto simp: verify_game_ownership_or_admin_def truthy_def split: option.splits)

lemma verify_InrD:
  "verify_game_ownership_or_admin A conn public_id k a = Inr game \<Longrightarrow>
   get_game_by_public_id conn public_id = Some game"
  by (auto simp: verify_cases split: option.splits if_splits)

lemma delete_highscores_isl:
  "isl (delete_highscores A conn public_id k a) =
   isl (verify_game_ownership_or_admin A conn public_id k a)"
  by (simp add: delete_highscores_def split: sum.splits)

lemma delete_game_isl:
  "isl (delete_game A conn public_id k a) =
   isl (verify_game_ownership_or_admin A conn public_id k a)"
  by (simp add: delete_game_def split: sum.splits)

lemma delete_highscores_Inl:
  "verify_game_ownership_or_admin A conn public_id k a = Inl e \<Longrightarrow>
   delete_highscores A conn public_id k a = Inl e"
  by (simp add: delete_highscores_def)

lemma delete_game_Inl:
  "verify_game_ownership_or_admin A conn public_id k a = Inl e \<Longrightarrow>
   delete_game A conn public_id k a = Inl e"
  by (simp add: delete_game_def)

lemma api_key_of_other_game:
  assumes "wf_db conn"
    and "get_game_by_public_id conn pidT = Some T"
    and "get_game_by_public_id conn pidU = Some U"
    and "pidT \<noteq> pidU"
  shows "g_api_key T \<noteq> g_api_key U" "g_id T \<noteq> g_id U"
proof -
  from assms(2,3) have in_games: "T \<in> set (games conn)" "U \<in> set (games conn)"
    and ids: "g_public_id T = pidT" "g_public_id U = pidU"
    by (auto dest: lookup_in_games)
  with assms(4) have "T \<noteq> U" by auto
  with assms(1) in_games show "g_api_key T \<noteq> g_api_key U" "g_id T \<noteq> g_id U"
    unfolding wf_db_def by (auto dest: distinct_map_eqD)
qed

lemma lookup_after_delete_game:
  assumes "distinct (map g_public_id (games conn))"
    and "get_game_by_public_id conn public_id = Some game"
  shows "find (\<lambda>g. g_public_id g = public_id)
           (filter (\<lambda>g. g_id g \<noteq> g_id game) (games conn)) = None"
proof (rule find_filter_None)
  fix x assume "x \<in> set (games conn)" "g_public_id x = public_id"
  with assms have "x = game"
    by (auto dest!: lookup_in_games dest: distinct_map_eqD)
  then show "\<not> g_id x \<noteq> g_id game" by simp
qed

lemma lookup_other_after_delete_game:
  assumes "distinct (map g_id (games conn))"
    and "get_game_by_public_id conn public_id = Some game"
    and "pid' \<noteq> public_id"
  shows "find (\<lambda>g. g_public_id g = pid')
           (filter (\<lambda>g. g_id g \<noteq> g_id game) (games conn)) =
         find (\<lambda>g. g_public_id g = pid') (games conn)"
proof (rule find_filter_same)
  fix x assume x: "x \<in> set (games conn)" "g_public_id x = pid'"
  from assms(2) have g: "game \<in> set (games conn)" "g_public_id game = public_id"
    by (auto dest: lookup_in_games)
  with x assms(3) have "x \<noteq> game" by auto
  with assms(1) x g show "g_id x \<noteq> g_id game"
    by (auto dest: distinct_map_eqD)
qed

lemma require_admin_token_wrong:
  "x \<noteq> Some ADMIN_TOKEN \<Longrightarrow> require_admin_token ADMIN_TOKEN x = Inl Unauthorized"
  by (simp add: require_admin_token_def)


section \<open>Every operation keeps the invariants\<close>

lemma wf_db_empty: "wf_db empty_db"
  by (simp add: wf_db_def empty_db_def)

lemma wf_db_create_game:
  assumes "wf_db conn" "create_game EmailStr lower conn game uuid_hex token now = Inr (conn', out)"
  shows "wf_db conn'"
  using assms next_rowid_fresh[of "map g_id (games conn)"] generate_api_key_nonempty[of token]
  unfolding create_game_def wf_db_def Let_def
  by (auto split: option.splits if_splits)

lemma wf_db_submit_highscore:
  "wf_db conn \<Longrightarrow> submit_highscore conn public_id hs now = Inr (conn', out) \<Longrightarrow> wf_db conn'"
  unfolding submit_highscore_def wf_db_def
  by (auto split: option.splits if_splits)

lemma wf_db_delete_highscores:
  "wf_db conn \<Longrightarrow> delete_highscores A conn public_id k a = Inr (conn', out) \<Longrightarrow> wf_db conn'"
  unfolding delete_highscores_def wf_db_def
  by (auto split: sum.splits)

lemma wf_db_delete_game:
  "wf_db conn \<Longrightarrow> delete_game A conn public_id k a = Inr (conn', out) \<Longrightarrow> wf_db conn'"
  unfolding delete_game_def wf_db_def
  by (auto split: sum.splits simp: distinct_map_filter)

lemma names_trimmed_empty: "names_trimmed empty_db"
  by (simp add: names_trimmed_def empty_db_def)

lemma names_trimmed_create_game:
  "names_trimmed conn \<Longrightarrow>
   create_game EmailStr lower conn game uuid_hex token now = Inr (conn', out) \<Longrightarrow>
   names_trimmed conn'"
  unfolding create_game_def names_trimmed_def Let_def
  by (auto split: option.splits if_splits)

lemma names_trimmed_submit_highscore:
  "names_trimmed conn \<Longrightarrow> submit_highscore conn public_id hs now = Inr (conn', out) \<Longrightarrow>
   names_trimmed conn'"
  unfolding submit_highscore_def names_trimmed_def
  by (auto split: option.splits if_splits simp: strip_idem)

lemma names_trimmed_delete_highscores:
  "names_trimmed conn \<Longrightarrow> delete_highscores A conn public_id k a = Inr (conn', out) \<Longrightarrow>
   names_trimmed conn'"
  unfolding delete_highscores_def names_trimmed_def
  by (auto split: sum.splits)

lemma names_trimmed_delete_game:
  "names_trimmed conn \<Longrightarrow> delete_game A conn public_id k a = Inr (conn', out) \<Longrightarrow>
   names_trimmed conn'"
  unfolding delete_game_def names_trimmed_def
  by (auto split: sum.splits)


section \<open>The ranked query\<close>

lemma rank_key_le: "rank_key r \<le> rank_key r' \<longleftrightarrow> ranks_before r r'"
  by (auto simp: rank_key_def ranks_before_def less_eq_prod_def)

lemma sorted_wrt_sort_key_rank: "sorted_wrt ranks_before (sort_key rank_key xs)"
proof -
  have "sorted (map rank_key (sort_key rank_key xs))"
    by (rule sorted_sort_key)
  then show ?thesis
    by (simp add: sorted_map rank_key_le)
qed

lemma select_top_spec:
  assumes "0 \<le> n"
  defines "own \<equiv> \<lambda>conn gid. filter (\<lambda>r. h_game_id r = gid) (highscores conn)"
  shows "\<exists>rest.
     mset (select_top conn gid n @ rest) = mset (own conn gid) \<and>
     sorted_wrt ranks_before (select_top conn gid n) \<and>
     (\<forall>r \<in> set (select_top conn gid n). \<forall>r' \<in> set rest. ranks_before r r') \<and>
     length (select_top conn gid n) = min (nat n) (length (own conn gid)) \<and>
     (int (length (own conn gid)) \<le> n \<longrightarrow> rest = [])"
proof -
  let ?s = "sort_key rank_key (own conn gid)"
  have sel: "select_top conn gid n = take (nat n) ?s"
    using assms(1) by (simp add: select_top_def sql_limit_def own_def)
  have "mset (take (nat n) ?s @ drop (nat n) ?s) = mset (own conn gid)"
    by simp
  moreover have "sorted_wrt ranks_before (take (nat n) ?s) \<and>
      (\<forall>r \<in> set (take (nat n) ?s). \<forall>r' \<in> set (drop (nat n) ?s). ranks_before r r')"
    by (rule sorted_wrt_take_drop[OF sorted_wrt_sort_key_rank])
  moreover have "length (take (nat n) ?s) = min (nat n) (length (own conn gid))"
    by (simp add: min.commute)
  moreover have "int (length (own conn gid)) \<le> n \<longrightarrow> drop (nat n) ?s = []"
    by simp
  ultimately show ?thesis
    unfolding sel by (intro exI[of _ "drop (nat n) ?s"]) blast
qed

lemma select_top_all:
  assumes "int (length (filter (\<lambda>r. h_game_id r = gid) (highscores conn))) \<le> n"
  shows "mset (select_top conn gid n) = mset (filter (\<lambda>r. h_game_id r = gid) (highscores conn))"
  using assms by (simp add: select_top_def sql_limit_def)

lemma set_select_top_subset:
  "set (select_top conn gid n) \<subseteq> set (highscores conn)"
proof -
  have "set (sql_limit n xs) \<subseteq> set xs" for xs :: "highscore list"
    by (auto simp: sql_limit_def dest: in_set_takeD)
  from this[of "sort_key rank_key (filter (\<lambda>r. h_game_id r = gid) (highscores conn))"]
  show ?thesis by (auto simp: select_top_def)
qed

lemma select_top_other:
  "gid' \<noteq> gid \<Longrightarrow>
   select_top (conn\<lparr>highscores := filter (\<lambda>r. h_game_id r \<noteq> gid) (highscores conn)\<rparr>) gid' n =
   select_top conn gid' n"
proof -
  assume "gid' \<noteq> gid"
  then have "filter (\<lambda>r. h_game_id r = gid') (filter (\<lambda>r. h_game_id r \<noteq> gid) (highscores conn)) =
        filter (\<lambda>r. h_game_id r = gid') (highscores conn)"
    by (auto intro: filter_cong)
  then show ?thesis by (simp add: select_top_def)
qed

lemma select_top_games_update [simp]:
  "select_top (conn\<lparr>games := gs\<rparr>) gid n = select_top conn gid n"
  by (simp add: select_top_def)

lemma get_highscores_found:
  assumes "get_game_by_public_id conn public_id = Some game" "Query_limit limit = Inr n"
  shows "get_highscores conn public_id limit =
     Inr \<lparr>hl_game_id = public_id,
          hl_highscores = map HighscoreOut_of (select_top conn (g_id game) n)\<rparr>"
  using assms by (simp add: get_highscores_def)

lemma names_trimmed_get_highscores:
  assumes "names_trimmed conn" "get_highscores conn public_id limit = Inr res"
  shows "\<forall>e \<in> set (hl_highscores res). strip (ho_player_name e) = ho_player_name e"
proof -
  from assms(2) obtain game :: game and n where
    "hl_highscores res = map HighscoreOut_of (select_top conn (g_id game) n)"
    by (auto simp: get_highscores_def split: sum.splits option.splits)
  with assms(1) set_select_top_subset[of conn "g_id game" n] show ?thesis
    by (auto simp: names_trimmed_def HighscoreOut_of_def)
qed


section \<open>Submissions that go through\<close>

lemma submit_highscore_found:
  assumes "HighscoreIn_valid hs" and "get_game_by_public_id conn public_id = Some game"
  shows "submit_highscore conn public_id hs now =
     Inr (conn\<lparr>highscores := highscores conn @
            [\<lparr>h_id = next_rowid (map h_id (highscores conn)), h_game_id = g_id game,
              h_player_name = strip (hi_player_name hs), h_score = hi_score hs,
              h_created_at = now\<rparr>]\<rparr>,
          \<lparr>ho_player_name = strip (hi_player_name hs), ho_score = hi_score hs,
           ho_created_at = now\<rparr>)"
  using assms by (simp add: submit_highscore_def)

lemma lookup_highscores_update [simp]:
  "get_game_by_public_id (conn\<lparr>highscores := hs\<rparr>) public_id = get_game_by_public_id conn public_id"
  by (simp add: get_game_by_public_id_def)

lemma payloads_ABC:
  "HighscoreIn_valid \<lparr>hi_player_name = lit ''A'', hi_score = 50\<rparr>"
  "HighscoreIn_valid \<lparr>hi_player_name = lit ''B'', hi_score = 90\<rparr>"
  "HighscoreIn_valid \<lparr>hi_player_name = lit ''C'', hi_score = 90\<rparr>"
  "strip (lit ''A'') = lit ''A''" "strip (lit ''B'') = lit ''B''" "strip (lit ''C'') = lit ''C''"
  by (simp_all add: HighscoreIn_valid_def strip_def isspace_def lit_def)

lemma top_two_of_three:
  assumes l: "get_game_by_public_id conn public_id = Some game"
    and none: "\<forall>r \<in> set (highscores conn). h_game_id r \<noteq> g_id game"
    and lt: "tB < tC"
  shows "\<exists>c1 c2 c3 oA oB oC.
     submit_highscore conn public_id \<lparr>hi_player_name = lit ''A'', hi_score = 50\<rparr> tA = Inr (c1, oA) \<and>
     submit_highscore c1 public_id \<lparr>hi_player_name = lit ''B'', hi_score = 90\<rparr> tB = Inr (c2, oB) \<and>
     submit_highscore c2 public_id \<lparr>hi_player_name = lit ''C'', hi_score = 90\<rparr> tC = Inr (c3, oC) \<and>
     get_highscores c3 public_id (Some 2) =
       Inr \<lparr>hl_game_id = public_id,
            hl_highscores =
              [\<lparr>ho_player_name = lit ''B'', ho_score = 90, ho_created_at = tB\<rparr>,
               \<lparr>ho_player_name = lit ''C'', ho_score = 90, ho_created_at = tC\<rparr>]\<rparr>"
proof -
  define rA where "rA = \<lparr>h_id = next_rowid (map h_id (highscores conn)), h_game_id = g_id game,
      h_player_name = lit ''A'', h_score = 50, h_created_at = tA\<rparr>"
  define c1 where "c1 = conn\<lparr>highscores := highscores conn @ [rA]\<rparr>"
  define rB where "rB = \<lparr>h_id = next_rowid (map h_id (highscores c1)), h_game_id = g_id game,
      h_player_name = lit ''B'', h_score = 90, h_created_at = tB\<rparr>"
  define c2 where "c2 = c1\<lparr>highscores := highscores c1 @ [rB]\<rparr>"
  define rC where "rC = \<lparr>h_id = next_rowid (map h_id (highscores c2)), h_game_id = g_id game,
      h_player_name = lit ''C'', h_score = 90, h_created_at = tC\<rparr>"
  define c3 where "c3 = c2\<lparr>highscores := highscores c2 @ [rC]\<rparr>"
  have l1: "get_game_by_public_id c1 public_id = Some game"
    and l2: "get_game_by_public_id c2 public_id = Some game"
    and l3: "get_game_by_public_id c3 public_id = Some game"
    using l by (simp_all add: c1_def c2_def c3_def)
  have s1: "submit_highscore conn public_id \<lparr>hi_player_name = lit ''A'', hi_score = 50\<rparr> tA =
      Inr (c1, \<lparr>ho_player_name = lit ''A'', ho_score = 50, ho_created_at = tA\<rparr>)"
    by (simp add: submit_highscore_found[OF payloads_ABC(1) l] payloads_ABC c1_def rA_def)
  have s2: "submit_highscore c1 public_id \<lparr>hi_player_name = lit ''B'', hi_score = 90\<rparr> tB =
      Inr (c2, \<lparr>ho_player_name = lit ''B'', ho_score = 90, ho_created_at = tB\<rparr>)"
    by (simp add: submit_highscore_found[OF payloads_ABC(2) l1] payloads_ABC c2_def rB_def)
  have s3: "submit_highscore c2 public_id \<lparr>hi_player_name = lit ''C'', hi_score = 90\<rparr> tC =
      Inr (c3, \<lparr>ho_player_name = lit ''C'', ho_score = 90, ho_created_at = tC\<rparr>)"
    by (simp add: submit_highscore_found[OF payloads_ABC(3) l2] payloads_ABC c3_def rC_def)
  from none have "filter (\<lambda>r. h_game_id r = g_id game) (highscores conn) = []"
    by (simp add: filter_empty_conv)
  then have own: "filter (\<lambda>r. h_game_id r = g_id game) (highscores c3) = [rA, rB, rC]"
    by (simp add: c3_def c2_def c1_def rA_def rB_def rC_def)
  have keys: "rank_key rB \<le> rank_key rC" "\<not> rank_key rA \<le> rank_key rC"
    "\<not> rank_key rA \<le> rank_key rB"
    using lt by (simp_all add: rank_key_def rA_def rB_def rC_def)
  have "sort_key rank_key [rA, rB, rC] = [rB, rC, rA]"
    using keys by simp
  then have "select_top c3 (g_id game) 2 = [rB, rC]"
    by (simp add: select_top_def sql_limit_def own)
  moreover have "Query_limit (Some 2) = Inr 2"
    by (simp add: Query_limit_def)
  ultimately have "get_highscores c3 public_id (Some 2) =
       Inr \<lparr>hl_game_id = public_id,
            hl_highscores =
              [\<lparr>ho_player_name = lit ''B'', ho_score = 90, ho_created_at = tB\<rparr>,
               \<lparr>ho_player_name = lit ''C'', ho_score = 90, ho_created_at = tC\<rparr>]\<rparr>"
    using get_highscores_found[OF l3, of "Some 2" 2]
    by (simp add: HighscoreOut_of_def rB_def rC_def)
  with s1 s2 s3 show ?thesis by blast
qed


section \<open>Response bodies and the secret columns\<close>

lemma json_keys_GameInfo [simp]:
  "json_keys (GameInfo_json g) = [''public_id'', ''name'', ''created_at'']"
  by (simp add: GameInfo_json_def)

lemma json_keys_HighscoreOut [simp]:
  "json_keys (HighscoreOut_json h) = [''player_name'', ''score'', ''created_at'']"
  by (simp add: HighscoreOut_json_def)

lemma json_keys_GameOut:
  "json_keys (GameOut_json g) = [''public_id'', ''name'', ''email'', ''api_key'', ''created_at'']"
  by (simp add: GameOut_json_def)

lemma json_keys_GameInfo_list:
  "set (json_keys (JArr (map GameInfo_json gs))) \<subseteq> {''public_id'', ''name'', ''created_at''}"
  by (induction gs) auto

lemma json_keys_HighscoreList:
  "set (json_keys (HighscoreList_json l)) \<subseteq>
     {''game_id'', ''highscores'', ''player_name'', ''score'', ''created_at''}"
proof -
  have "set (concat (map json_keys (map HighscoreOut_json hs))) \<subseteq>
      {''player_name'', ''score'', ''created_at''}" for hs
    by (induction hs) auto
  then show ?thesis
    by (auto simp: HighscoreList_json_def)
qed

lemma insort_key_map_same:
  assumes "\<And>x. k (f x) = k x"
  shows "insort_key k (f x) (map f ys) = map f (insort_key k x ys)"
  by (induction ys) (simp_all add: assms)

lemma sort_key_map_same:
  assumes "\<And>x. k (f x) = k x"
  shows "sort_key k (map f xs) = map f (sort_key k xs)"
  by (induction xs) (simp_all add: insort_key_map_same[where k = k and f = f, OF assms])

lemma find_map_same:
  assumes "\<And>x. P (f x) = P x"
  shows "find P (map f xs) = map_option f (find P xs)"
  by (induction xs) (simp_all add: assms)

lemma list_games_with_secrets:
  "list_games A (with_secrets key mail conn) x = list_games A conn x"
proof -
  let ?f = "\<lambda>g. g\<lparr>g_api_key := key g, g_email := mail g\<rparr>"
  have "sort_key g_created_at (map ?f (games conn)) = map ?f (sort_key g_created_at (games conn))"
    by (rule sort_key_map_same) simp
  moreover have "map GameInfo_of (map ?f ys) = map GameInfo_of ys" for ys
    by (simp add: GameInfo_of_def)
  ultimately show ?thesis
    by (simp add: list_games_def with_secrets_def split: sum.splits)
qed

lemma lookup_with_secrets:
  "get_game_by_public_id (with_secrets key mail conn) public_id =
   map_option (\<lambda>g. g\<lparr>g_api_key := key g, g_email := mail g\<rparr>) (get_game_by_public_id conn public_id)"
  unfolding get_game_by_public_id_def with_secrets_def
  by (simp add: find_map_same)

lemma get_game_with_secrets:
  "get_game A (with_secrets key mail conn) public_id x = get_game A conn public_id x"
  by (auto simp: get_game_def lookup_with_secrets GameInfo_of_def split: sum.splits option.splits)

lemma get_highscores_with_secrets:
  "get_highscores (with_secrets key mail conn) public_id limit = get_highscores conn public_id limit"
proof -
  have "select_top (with_secrets key mail conn) gid n = select_top conn gid n" for gid n
    by (simp add: with_secrets_def)
  then show ?thesis
    by (auto simp: get_highscores_def lookup_with_secrets split: sum.splits option.splits)
qed

lemma create_game_api_key:
  "create_game EmailStr lower conn game uuid_hex token now = Inr (c, created) \<Longrightarrow>
   go_api_key created = generate_api_key token"
  unfolding create_game_def Let_def
  by (auto split: option.splits if_splits)

lemma list_games_rows:
  "list_games A conn x = Inr infos \<Longrightarrow> mset infos = image_mset GameInfo_of (mset (games conn))"
  by (auto simp: list_games_def split: sum.splits)

lemma get_game_row:
  "get_game A conn public_id x = Inr info \<Longrightarrow>
   \<exists>g \<in> set (games conn). g_public_id g = public_id \<and> info = GameInfo_of g"
  by (auto simp: get_game_def split: sum.splits option.splits dest: lookup_in_games)


section \<open>The example store\<close>

lemmas demo_defs = demo_db_def game_T_def game_U_def admin_secret_def lit_def

lemma wf_demo_db: "wf_db demo_db"
  by (simp add: wf_db_def demo_defs)

lemma demo_lookup_T: "get_game_by_public_id demo_db (lit ''g_0123456789abcdef'') = Some game_T"
  by (simp add: get_game_by_public_id_def demo_defs)

lemma demo_lookup_U: "get_game_by_public_id demo_db (lit ''g_fedcba9876543210'') = Some game_U"
  by (simp add: get_game_by_public_id_def demo_defs)

lemma demo_lookup_none: "get_game_by_public_id demo_db (lit ''g_0000000000000000'') = None"
  by (simp add: get_game_by_public_id_def demo_defs)

lemma demo_verify_T:
  "verify_game_ownership_or_admin admin_secret demo_db (lit ''g_0123456789abcdef'')
     (Some (lit ''sk_key-of-T'')) None = Inr game_T"
  by (simp add: verify_game_ownership_or_admin_def demo_lookup_T truthy_def)
     (simp add: demo_defs)

lemma demo_delete_highscores_T:
  "delete_highscores admin_secret demo_db (lit ''g_0123456789abcdef'')
     (Some (lit ''sk_key-of-T'')) None =
   Inr (demo_db_scores_of_T_deleted, \<lparr>do_ok = True, do_deleted = 3\<rparr>)"
  by (simp add: delete_highscores_def demo_verify_T)
     (simp add: demo_defs demo_db_scores_of_T_deleted_def)

lemma demo_delete_game_T:
  "delete_game admin_secret demo_db (lit ''g_0123456789abcdef'')
     (Some (lit ''sk_key-of-T'')) None = Inr (demo_db_T_deleted, True)"
  by (simp add: delete_game_def demo_verify_T)
     (simp add: demo_defs demo_db_T_deleted_def)

lemma demo_lookup_T_after_delete:
  "get_game_by_public_id demo_db_scores_of_T_deleted (lit ''g_0123456789abcdef'') = Some game_T"
  by (simp add: get_game_by_public_id_def demo_db_scores_of_T_deleted_def game_T_def game_U_def lit_def)

lemma demo_top_two:
  "get_highscores demo_db (lit ''g_0123456789abcdef'') (Some 2) =
     Inr \<lparr>hl_game_id = lit ''g_0123456789abcdef'',
          hl_highscores =
            [\<lparr>ho_player_name = lit ''B'', ho_score = 90,
               ho_created_at = lit ''2025-11-16T11:00:02''\<rparr>,
             \<lparr>ho_player_name = lit ''C'', ho_score = 90,
               ho_created_at = lit ''2025-11-16T11:00:02.000001''\<rparr>]\<rparr>"
  by (simp add: get_highscores_def Query_limit_def demo_lookup_T)
     (simp add: select_top_def sql_limit_def rank_key_def HighscoreOut_of_def demo_defs)

lemma strip_Ann: "strip (lit '' Ann '') = lit ''Ann''"
  by (simp add: strip_def isspace_def lit_def)

lemma demo_payload_valid: "HighscoreIn_valid \<lparr>hi_player_name = lit '' Ann '', hi_score = 10\<rparr>"
  by (simp add: HighscoreIn_valid_def lit_def)

lemma demo_submit_Ann:
  "submit_highscore demo_db (lit ''g_0123456789abcdef'')
     \<lparr>hi_player_name = lit '' Ann '', hi_score = 10\<rparr> (lit ''2025-11-16T12:00:00'') =
   Inr (demo_db_Ann_submitted,
        \<lparr>ho_player_name = lit ''Ann'', ho_score = 10, ho_created_at = lit ''2025-11-16T12:00:00''\<rparr>)"
  by (simp add: submit_highscore_def demo_payload_valid demo_lookup_T strip_Ann)
     (simp add: demo_defs demo_db_Ann_submitted_def next_rowid_def)

lemma demo_select_top_Ann:
  "map HighscoreOut_of (select_top demo_db_Ann_submitted 1 10) =
     [\<lparr>ho_player_name = lit ''B'', ho_score = 90, ho_created_at = lit ''2025-11-16T11:00:02''\<rparr>,
      \<lparr>ho_player_name = lit ''C'', ho_score = 90, ho_created_at = lit ''2025-11-16T11:00:02.000001''\<rparr>,
      \<lparr>ho_player_name = lit ''A'', ho_score = 50, ho_created_at = lit ''2025-11-16T11:00:00''\<rparr>,
      \<lparr>ho_player_name = lit ''Ann'', ho_score = 10, ho_created_at = lit ''2025-11-16T12:00:00''\<rparr>]"
  by (simp add: select_top_def sql_limit_def rank_key_def HighscoreOut_of_def
      demo_db_Ann_submitted_def lit_def)

lemma demo_list_games:
  "list_games admin_secret demo_db (Some admin_secret) =
     Inr [\<lparr>gi_public_id = lit ''g_0123456789abcdef'', gi_name = lit ''Tetris'',
            gi_created_at = lit ''2025-11-16T10:00:00''\<rparr>,
          \<lparr>gi_public_id = lit ''g_fedcba9876543210'', gi_name = lit ''Pong'',
            gi_created_at = lit ''2025-11-16T10:05:00.250000''\<rparr>]"
  by (simp add: list_games_def require_admin_token_def GameInfo_of_def demo_defs)

lemma demo_get_game:
  "get_game admin_secret demo_db (lit ''g_0123456789abcdef'') (Some admin_secret) =
     Inr \<lparr>gi_public_id = lit ''g_0123456789abcdef'', gi_name = lit ''Tetris'',
          gi_created_at = lit ''2025-11-16T10:00:00''\<rparr>"
  by (simp add: get_game_def require_admin_token_def demo_lookup_T)
     (simp add: GameInfo_of_def game_T_def)


section \<open>The owner-or-admin guard\<close>

text \<open>
  C1. On a store that satisfies the schema constraints, \<^verbatim>\<open>delete_highscores\<close> and \<^verbatim>\<open>delete_game\<close>
  answer NotFound when no game has the \<^verbatim>\<open>public_id\<close>, whatever the credentials; otherwise
  they go through when the admin token equals \<^verbatim>\<open>ADMIN_TOKEN\<close>; otherwise they go through when
  the API key equals the key of the game found; otherwise they answer Forbidden. The key of
  game T with a wrong or missing admin token goes through on T and is Forbidden on any other
  game U.
\<close>

theorem owner_or_admin_guard:
  assumes "wf_db conn"
  shows
    "(case get_game_by_public_id conn public_id of
        None \<Rightarrow>
          delete_highscores A conn public_id k a = Inl NotFound \<and>
          delete_game A conn public_id k a = Inl NotFound
      | Some game \<Rightarrow>
          if a = Some A then
            verify_game_ownership_or_admin A conn public_id k a = Inr game \<and>
            \<not> isl (delete_highscores A conn public_id k a) \<and>
            \<not> isl (delete_game A conn public_id k a)
          else if k = Some (g_api_key game) then
            verify_game_ownership_or_admin A conn public_id k a = Inr game \<and>
            \<not> isl (delete_highscores A conn public_id k a) \<and>
            \<not> isl (delete_game A conn public_id k a)
          else
            delete_highscores A conn public_id k a = Inl Forbidden \<and>
            delete_game A conn public_id k a = Inl Forbidden) \<and>
     (\<forall>T U pidT pidU.
        get_game_by_public_id conn pidT = Some T \<and>
        get_game_by_public_id conn pidU = Some U \<and> pidT \<noteq> pidU \<and> a \<noteq> Some A \<longrightarrow>
          \<not> isl (delete_highscores A conn pidT (Some (g_api_key T)) a) \<and>
          \<not> isl (delete_game A conn pidT (Some (g_api_key T)) a) \<and>
          delete_highscores A conn pidU (Some (g_api_key T)) a = Inl Forbidden \<and>
          delete_game A conn pidU (Some (g_api_key T)) a = Inl Forbidden)"
proof (intro conjI allI impI)
  show "case get_game_by_public_id conn public_id of
        None \<Rightarrow>
          delete_highscores A conn public_id k a = Inl NotFound \<and>
          delete_game A conn public_id k a = Inl NotFound
      | Some game \<Rightarrow>
          if a = Some A then
            verify_game_ownership_or_admin A conn public_id k a = Inr game \<and>
            \<not> isl (delete_highscores A conn public_id k a) \<and>
            \<not> isl (delete_game A conn public_id k a)
          else if k = Some (g_api_key game) then
            verify_game_ownership_or_admin A conn public_id k a = Inr game \<and>
            \<not> isl (delete_highscores A conn public_id k a) \<and>
            \<not> isl (delete_game A conn public_id k a)
          else
            delete_highscores A conn public_id k a = Inl Forbidden \<and>
            delete_game A conn public_id k a = Inl Forbidden"
  proof (cases "get_game_by_public_id conn public_id")
    case None
    then show ?thesis
      by (simp add: delete_highscores_Inl delete_game_Inl verify_cases)
  next
    case (Some game)
    then have "g_api_key game \<noteq> []"
      using assms by (auto simp: wf_db_def dest: lookup_in_games)
    with Some show ?thesis
      by (simp add: delete_highscores_isl delete_game_isl delete_highscores_Inl
          delete_game_Inl verify_cases)
  qed
next
  fix T U pidT pidU
  assume h: "get_game_by_public_id conn pidT = Some T \<and>
        get_game_by_public_id conn pidU = Some U \<and> pidT \<noteq> pidU \<and> a \<noteq> Some A"
  then have neq: "g_api_key T \<noteq> g_api_key U"
    using api_key_of_other_game(1)[OF assms] by blast
  from h have "g_api_key T \<noteq> []"
    using assms by (auto simp: wf_db_def dest: lookup_in_games)
  with h neq have
    vT: "verify_game_ownership_or_admin A conn pidT (Some (g_api_key T)) a = Inr T" and
    vU: "verify_game_ownership_or_admin A conn pidU (Some (g_api_key T)) a = Inl Forbidden"
    by (simp_all add: verify_cases)
  show "\<not> isl (delete_highscores A conn pidT (Some (g_api_key T)) a)"
    by (simp add: delete_highscores_isl vT)
  show "\<not> isl (delete_game A conn pidT (Some (g_api_key T)) a)"
    by (simp add: delete_game_isl vT)
  show "delete_highscores A conn pidU (Some (g_api_key T)) a = Inl Forbidden"
    by (rule delete_highscores_Inl[OF vU])
  show "delete_game A conn pidU (Some (g_api_key T)) a = Inl Forbidden"
    by (rule delete_game_Inl[OF vU])
qed

theorem owner_or_admin_guard_witness:
  "wf_db demo_db \<and>
   delete_game admin_secret demo_db (lit ''g_0000000000000000'')
     (Some (lit ''sk_key-of-T'')) (Some admin_secret) = Inl NotFound \<and>
   \<not> isl (delete_game admin_secret demo_db (lit ''g_fedcba9876543210'')
     None (Some admin_secret)) \<and>
   \<not> isl (delete_highscores admin_secret demo_db (lit ''g_0123456789abcdef'')
     (Some (lit ''sk_key-of-T'')) None) \<and>
   delete_highscores admin_secret demo_db (lit ''g_fedcba9876543210'')
     (Some (lit ''sk_key-of-T'')) None = Inl Forbidden \<and>
   delete_game admin_secret demo_db (lit ''g_fedcba9876543210'')
     None (Some (lit ''guess'')) = Inl Forbidden"
proof -
  have keyT: "g_api_key game_T = lit ''sk_key-of-T''" and keyU: "g_api_key game_U \<noteq> lit ''sk_key-of-T''"
    by (simp_all add: demo_defs)
  have tok: "Some (lit ''guess'') \<noteq> Some admin_secret"
    by (simp add: demo_defs)
  have pids: "lit ''g_0123456789abcdef'' \<noteq> lit ''g_fedcba9876543210''"
    by (simp add: lit_def)
  note g = owner_or_admin_guard[OF wf_demo_db]
  from g[where public_id = "lit ''g_0000000000000000''" and A = admin_secret and k = "Some (lit ''sk_key-of-T'')" and a = "Some admin_secret"]
  have 1: "delete_game admin_secret demo_db (lit ''g_0000000000000000'')
     (Some (lit ''sk_key-of-T'')) (Some admin_secret) = Inl NotFound"
    by (simp add: demo_lookup_none)
  from g[where public_id = "lit ''g_fedcba9876543210''" and A = admin_secret and k = None and a = "Some admin_secret"]
  have 2: "\<not> isl (delete_game admin_secret demo_db (lit ''g_fedcba9876543210'')
     None (Some admin_secret))"
    by (simp add: demo_lookup_U)
  note g3 = g[where public_id = "lit ''g_0123456789abcdef''" and A = admin_secret
      and k = "Some (lit ''sk_key-of-T'')" and a = None]
  from g3[THEN conjunct2, rule_format, where T = game_T and U = game_U
      and pidT = "lit ''g_0123456789abcdef''" and pidU = "lit ''g_fedcba9876543210''"]
  have 3: "\<not> isl (delete_highscores admin_secret demo_db (lit ''g_0123456789abcdef'')
     (Some (lit ''sk_key-of-T'')) None) \<and>
   delete_highscores admin_secret demo_db (lit ''g_fedcba9876543210'')
     (Some (lit ''sk_key-of-T'')) None = Inl Forbidden"
    using demo_lookup_T demo_lookup_U pids by (simp add: keyT)
  from g[where public_id = "lit ''g_fedcba9876543210''" and A = admin_secret and k = None and a = "Some (lit ''guess'')"]
  have 4: "delete_game admin_secret demo_db (lit ''g_fedcba9876543210'')
     None (Some (lit ''guess'')) = Inl Forbidden"
    using tok by (simp add: demo_lookup_U)
  from wf_demo_db 1 2 3 4 show ?thesis by blast
qed


section \<open>The ranking returned by \<^verbatim>\<open>get_highscores\<close>\<close>

text \<open>
  C2. For a game that exists and a \<^verbatim>\<open>limit\<close> from 1 to 50, \<^verbatim>\<open>get_highscores\<close> returns rows of
  that game, as many as \<^verbatim>\<open>limit\<close> or all of them when there are fewer; the rows returned are
  in order of descending score and, at equal score, ascending \<^verbatim>\<open>created_at\<close>; and every row
  of the game that is left out ranks after every row returned. After the submissions
  (A, 50), (B, 90), (C, 90) to a game without entries, the one of B stamped earlier than
  the one of C, \<^verbatim>\<open>limit = 2\<close> returns B and then C.
\<close>

theorem get_highscores_top_n:
  "(get_game_by_public_id conn public_id = Some game \<and> 1 \<le> n \<and> n \<le> 50 \<longrightarrow>
      (\<exists>rows rest.
         get_highscores conn public_id (Some n) =
           Inr \<lparr>hl_game_id = public_id, hl_highscores = map HighscoreOut_of rows\<rparr> \<and>
         mset (rows @ rest) =
           mset (filter (\<lambda>r. h_game_id r = g_id game) (highscores conn)) \<and>
         sorted_wrt ranks_before rows \<and>
         (\<forall>r \<in> set rows. \<forall>r' \<in> set rest. ranks_before r r') \<and>
         length rows =
           min (nat n) (length (filter (\<lambda>r. h_game_id r = g_id game) (highscores conn))) \<and>
         (int (length (filter (\<lambda>r. h_game_id r = g_id game) (highscores conn))) \<le> n \<longrightarrow>
            rest = []))) \<and>
   (get_game_by_public_id conn public_id = Some game \<and>
    (\<forall>r \<in> set (highscores conn). h_game_id r \<noteq> g_id game) \<and> tB < tC \<longrightarrow>
      (\<exists>c1 c2 c3 oA oB oC.
         submit_highscore conn public_id \<lparr>hi_player_name = lit ''A'', hi_score = 50\<rparr> tA
           = Inr (c1, oA) \<and>
         submit_highscore c1 public_id \<lparr>hi_player_name = lit ''B'', hi_score = 90\<rparr> tB
           = Inr (c2, oB) \<and>
         submit_highscore c2 public_id \<lparr>hi_player_name = lit ''C'', hi_score = 90\<rparr> tC
           = Inr (c3, oC) \<and>
         get_highscores c3 public_id (Some 2) =
           Inr \<lparr>hl_game_id = public_id,
                hl_highscores =
                  [\<lparr>ho_player_name = lit ''B'', ho_score = 90, ho_created_at = tB\<rparr>,
                   \<lparr>ho_player_name = lit ''C'', ho_score = 90, ho_created_at = tC\<rparr>]\<rparr>))"
proof (intro conjI impI)
  assume h: "get_game_by_public_id conn public_id = Some game \<and> 1 \<le> n \<and> n \<le> 50"
  then have q: "Query_limit (Some n) = Inr n" and n0: "0 \<le> n"
    by (simp_all add: Query_limit_def)
  from h have l: "get_game_by_public_id conn public_id = Some game" by simp
  from select_top_spec[OF n0, of conn "g_id game"] obtain rest where
    "mset (select_top conn (g_id game) n @ rest) =
       mset (filter (\<lambda>r. h_game_id r = g_id game) (highscores conn))"
    "sorted_wrt ranks_before (select_top conn (g_id game) n)"
    "\<forall>r \<in> set (select_top conn (g_id game) n). \<forall>r' \<in> set rest. ranks_before r r'"
    "length (select_top conn (g_id game) n) =
       min (nat n) (length (filter (\<lambda>r. h_game_id r = g_id game) (highscores conn)))"
    "int (length (filter (\<lambda>r. h_game_id r = g_id game) (highscores conn))) \<le> n \<longrightarrow> rest = []"
    by blast
  with get_highscores_found[OF l q]
  show "\<exists>rows rest.
         get_highscores conn public_id (Some n) =
           Inr \<lparr>hl_game_id = public_id, hl_highscores = map HighscoreOut_of rows\<rparr> \<and>
         mset (rows @ rest) =
           mset (filter (\<lambda>r. h_game_id r = g_id game) (highscores conn)) \<and>
         sorted_wrt ranks_before rows \<and>
         (\<forall>r \<in> set rows. \<forall>r' \<in> set rest. ranks_before r r') \<and>
         length rows =
           min (nat n) (length (filter (\<lambda>r. h_game_id r = g_id game) (highscores conn))) \<and>
         (int (length (filter (\<lambda>r. h_game_id r = g_id game) (highscores conn))) \<le> n \<longrightarrow>
            rest = [])"
    by (intro exI[of _ "select_top conn (g_id game) n"] exI[of _ rest]) blast
next
  assume "get_game_by_public_id conn public_id = Some game \<and>
    (\<forall>r \<in> set (highscores conn). h_game_id r \<noteq> g_id game) \<and> tB < tC"
  then show "\<exists>c1 c2 c3 oA oB oC.
         submit_highscore conn public_id \<lparr>hi_player_name = lit ''A'', hi_score = 50\<rparr> tA
           = Inr (c1, oA) \<and>
         submit_highscore c1 public_id \<lparr>hi_player_name = lit ''B'', hi_score = 90\<rparr> tB
           = Inr (c2, oB) \<and>
         submit_highscore c2 public_id \<lparr>hi_player_name = lit ''C'', hi_score = 90\<rparr> tC
           = Inr (c3, oC) \<and>
         get_highscores c3 public_id (Some 2) =
           Inr \<lparr>hl_game_id = public_id,
                hl_highscores =
                  [\<lparr>ho_player_name = lit ''B'', ho_score = 90, ho_created_at = tB\<rparr>,
                   \<lparr>ho_player_name = lit ''C'', ho_score = 90, ho_created_at = tC\<rparr>]\<rparr>"
    using top_two_of_three[of conn public_id game tB tC tA] by blast
qed

theorem get_highscores_top_n_witness:
  "get_game_by_public_id demo_db (lit ''g_0123456789abcdef'') = Some game_T \<and>
   get_highscores demo_db (lit ''g_0123456789abcdef'') (Some 2) =
     Inr \<lparr>hl_game_id = lit ''g_0123456789abcdef'',
          hl_highscores =
            [\<lparr>ho_player_name = lit ''B'', ho_score = 90,
               ho_created_at = lit ''2025-11-16T11:00:02''\<rparr>,
             \<lparr>ho_player_name = lit ''C'', ho_score = 90,
               ho_created_at = lit ''2025-11-16T11:00:02.000001''\<rparr>]\<rparr> \<and>
   get_game_by_public_id demo_db_scores_of_T_deleted (lit ''g_0123456789abcdef'') = Some game_T \<and>
   filter (\<lambda>r. h_game_id r = g_id game_T) (highscores demo_db_scores_of_T_deleted) = [] \<and>
   lit ''2025-11-16T12:00:01'' < lit ''2025-11-16T12:00:01.500000'' \<and>
   (\<exists>c1 c2 c3 oA oB oC.
      submit_highscore demo_db_scores_of_T_deleted (lit ''g_0123456789abcdef'')
        \<lparr>hi_player_name = lit ''A'', hi_score = 50\<rparr> (lit ''2025-11-16T12:00:00'') = Inr (c1, oA) \<and>
      submit_highscore c1 (lit ''g_0123456789abcdef'')
        \<lparr>hi_player_name = lit ''B'', hi_score = 90\<rparr> (lit ''2025-11-16T12:00:01'') = Inr (c2, oB) \<and>
      submit_highscore c2 (lit ''g_0123456789abcdef'')
        \<lparr>hi_player_name = lit ''C'', hi_score = 90\<rparr> (lit ''2025-11-16T12:00:01.500000'')
        = Inr (c3, oC) \<and>
      get_highscores c3 (lit ''g_0123456789abcdef'') (Some 2) =
        Inr \<lparr>hl_game_id = lit ''g_0123456789abcdef'',
             hl_highscores =
               [\<lparr>ho_player_name = lit ''B'', ho_score = 90,
                  ho_created_at = lit ''2025-11-16T12:00:01''\<rparr>,
                \<lparr>ho_player_name = lit ''C'', ho_score = 90,
                  ho_created_at = lit ''2025-11-16T12:00:01.500000''\<rparr>]\<rparr>)"
proof -
  have none: "filter (\<lambda>r. h_game_id r = g_id game_T) (highscores demo_db_scores_of_T_deleted) = []"
    by (simp add: demo_db_scores_of_T_deleted_def game_T_def)
  then have none': "\<forall>r \<in> set (highscores demo_db_scores_of_T_deleted). h_game_id r \<noteq> g_id game_T"
    by (simp add: filter_empty_conv)
  have lt: "lit ''2025-11-16T12:00:01'' < lit ''2025-11-16T12:00:01.500000''"
    by (simp add: lit_def)
  note first = get_highscores_top_n[where conn = demo_db
      and public_id = "lit ''g_0123456789abcdef''" and game = game_T and n = 2,
      THEN conjunct1, rule_format]
  have "\<exists>rows. get_highscores demo_db (lit ''g_0123456789abcdef'') (Some 2) =
      Inr \<lparr>hl_game_id = lit ''g_0123456789abcdef'', hl_highscores = map HighscoreOut_of rows\<rparr> \<and>
      length rows = 2"
    using first demo_lookup_T
    by (fastforce simp: demo_db_def game_T_def)
  note second = get_highscores_top_n[where conn = demo_db_scores_of_T_deleted
      and public_id = "lit ''g_0123456789abcdef''" and game = game_T
      and tA = "lit ''2025-11-16T12:00:00''" and tB = "lit ''2025-11-16T12:00:01''"
      and tC = "lit ''2025-11-16T12:00:01.500000''",
      THEN conjunct2, rule_format]
  from second demo_lookup_T_after_delete none' lt
  have "\<exists>c1 c2 c3 oA oB oC.
      submit_highscore demo_db_scores_of_T_deleted (lit ''g_0123456789abcdef'')
        \<lparr>hi_player_name = lit ''A'', hi_score = 50\<rparr> (lit ''2025-11-16T12:00:00'') = Inr (c1, oA) \<and>
      submit_highscore c1 (lit ''g_0123456789abcdef'')
        \<lparr>hi_player_name = lit ''B'', hi_score = 90\<rparr> (lit ''2025-11-16T12:00:01'') = Inr (c2, oB) \<and>
      submit_highscore c2 (lit ''g_0123456789abcdef'')
        \<lparr>hi_player_name = lit ''C'', hi_score = 90\<rparr> (lit ''2025-11-16T12:00:01.500000'')
        = Inr (c3, oC) \<and>
      get_highscores c3 (lit ''g_0123456789abcdef'') (Some 2) =
        Inr \<lparr>hl_game_id = lit ''g_0123456789abcdef'',
             hl_highscores =
               [\<lparr>ho_player_name = lit ''B'', ho_score = 90,
                  ho_created_at = lit ''2025-11-16T12:00:01''\<rparr>,
                \<lparr>ho_player_name = lit ''C'', ho_score = 90,
                  ho_created_at = lit ''2025-11-16T12:00:01.500000''\<rparr>]\<rparr>"
    by blast
  with demo_lookup_T demo_top_two demo_lookup_T_after_delete none lt show ?thesis
    by blast
qed


section \<open>The bounds of \<^verbatim>\<open>limit\<close>\<close>

text \<open>
  C3. \<^verbatim>\<open>get_highscores\<close> answers a \<^verbatim>\<open>limit\<close> below 1 or above 50 with a validation error, in
  particular 0 and 51, never answers a \<^verbatim>\<open>limit\<close> from 1 to 50 with one, and treats a \<^verbatim>\<open>limit\<close>
  left out as 10.
\<close>

theorem get_highscores_limit_range:
  "((n < 1 \<or> 50 < n) \<longrightarrow> get_highscores conn public_id (Some n) = Inl ValidationError) \<and>
   (1 \<le> n \<and> n \<le> 50 \<longrightarrow> get_highscores conn public_id (Some n) \<noteq> Inl ValidationError) \<and>
   get_highscores conn public_id (Some 0) = Inl ValidationError \<and>
   get_highscores conn public_id (Some 51) = Inl ValidationError \<and>
   get_highscores conn public_id None = get_highscores conn public_id (Some 10)"
  by (auto simp: get_highscores_def Query_limit_def split: option.splits)

theorem get_highscores_limit_range_witness:
  "get_highscores demo_db (lit ''g_0123456789abcdef'') (Some (- 1)) = Inl ValidationError \<and>
   get_highscores demo_db (lit ''g_0123456789abcdef'') (Some 50) \<noteq> Inl ValidationError \<and>
   get_highscores demo_db (lit ''g_0123456789abcdef'') (Some 51) = Inl ValidationError"
  using get_highscores_limit_range[where n = "- 1" and conn = demo_db
      and public_id = "lit ''g_0123456789abcdef''"]
    get_highscores_limit_range[where n = 50 and conn = demo_db
      and public_id = "lit ''g_0123456789abcdef''"]
    get_highscores_limit_range[where n = 51 and conn = demo_db
      and public_id = "lit ''g_0123456789abcdef''"]
  by simp


section \<open>Where the API key is sent\<close>

text \<open>
  C4. The body of \<^verbatim>\<open>create_game\<close> has the member \<^verbatim>\<open>api_key\<close> with the key just generated.
  \<^verbatim>\<open>list_games\<close> returns one object for each game, each with exactly the members
  \<^verbatim>\<open>public_id\<close>, \<^verbatim>\<open>name\<close> and \<^verbatim>\<open>created_at\<close> of that game, and \<^verbatim>\<open>get_game\<close> returns one such
  object; no body of \<^verbatim>\<open>list_games\<close>, \<^verbatim>\<open>get_game\<close>, \<^verbatim>\<open>submit_highscore\<close>, \<^verbatim>\<open>get_highscores\<close>,
  \<^verbatim>\<open>delete_highscores\<close> or \<^verbatim>\<open>delete_game\<close> has a member \<^verbatim>\<open>api_key\<close>; and the bodies of
  \<^verbatim>\<open>list_games\<close>, \<^verbatim>\<open>get_game\<close> and \<^verbatim>\<open>get_highscores\<close> stay the same when the stored keys and
  addresses are replaced by any others.
\<close>

theorem api_key_only_in_create_response:
  "(create_game EmailStr lower conn game uuid_hex token now = Inr (c0, created) \<longrightarrow>
      ''api_key'' \<in> set (json_keys (GameOut_json created)) \<and>
      go_api_key created = generate_api_key token) \<and>
   (list_games A conn x_admin_token = Inr infos \<longrightarrow>
      mset infos = image_mset GameInfo_of (mset (games conn)) \<and>
      (\<forall>i \<in> set infos. json_keys (GameInfo_json i) = [''public_id'', ''name'', ''created_at'']) \<and>
      ''api_key'' \<notin> set (json_keys (JArr (map GameInfo_json infos))) \<and>
      ''email'' \<notin> set (json_keys (JArr (map GameInfo_json infos))) \<and>
      (\<forall>key mail. list_games A (with_secrets key mail conn) x_admin_token = Inr infos)) \<and>
   (get_game A conn public_id x_admin_token = Inr info \<longrightarrow>
      (\<exists>g \<in> set (games conn). g_public_id g = public_id \<and> info = GameInfo_of g) \<and>
      json_keys (GameInfo_json info) = [''public_id'', ''name'', ''created_at''] \<and>
      (\<forall>key mail. get_game A (with_secrets key mail conn) public_id x_admin_token = Inr info)) \<and>
   (submit_highscore conn public_id hs now = Inr (c1, hout) \<longrightarrow>
      ''api_key'' \<notin> set (json_keys (HighscoreOut_json hout))) \<and>
   (get_highscores conn public_id limit = Inr hlist \<longrightarrow>
      ''api_key'' \<notin> set (json_keys (HighscoreList_json hlist)) \<and>
      (\<forall>key mail. get_highscores (with_secrets key mail conn) public_id limit = Inr hlist)) \<and>
   (delete_highscores A conn public_id x_api_key x_admin_token = Inr (c2, dout) \<longrightarrow>
      json_keys (DeletedOut_json dout) = [''ok'', ''deleted'']) \<and>
   (delete_game A conn public_id x_api_key x_admin_token = Inr (c3, ok) \<longrightarrow>
      json_keys (ok_json ok) = [''ok''])"
proof (intro conjI impI)
  assume "create_game EmailStr lower conn game uuid_hex token now = Inr (c0, created)"
  then show "go_api_key created = generate_api_key token"
    by (rule create_game_api_key)
next
  show "''api_key'' \<in> set (json_keys (GameOut_json created))"
    by (simp add: json_keys_GameOut)
next
  assume "list_games A conn x_admin_token = Inr infos"
  then show "mset infos = image_mset GameInfo_of (mset (games conn))"
    by (rule list_games_rows)
next
  show "\<forall>i \<in> set infos. json_keys (GameInfo_json i) = [''public_id'', ''name'', ''created_at'']"
    by simp
next
  show "''api_key'' \<notin> set (json_keys (JArr (map GameInfo_json infos)))"
    using json_keys_GameInfo_list[of infos] by auto
next
  show "''email'' \<notin> set (json_keys (JArr (map GameInfo_json infos)))"
    using json_keys_GameInfo_list[of infos] by auto
next
  assume "list_games A conn x_admin_token = Inr infos"
  then show "\<forall>key mail. list_games A (with_secrets key mail conn) x_admin_token = Inr infos"
    by (simp add: list_games_with_secrets)
next
  assume "get_game A conn public_id x_admin_token = Inr info"
  then show "\<exists>g \<in> set (games conn). g_public_id g = public_id \<and> info = GameInfo_of g"
    by (rule get_game_row)
next
  show "json_keys (GameInfo_json info) = [''public_id'', ''name'', ''created_at'']"
    by simp
next
  assume "get_game A conn public_id x_admin_token = Inr info"
  then show "\<forall>key mail. get_game A (with_secrets key mail conn) public_id x_admin_token = Inr info"
    by (simp add: get_game_with_secrets)
next
  show "''api_key'' \<notin> set (json_keys (HighscoreOut_json hout))"
    by simp
next
  show "''api_key'' \<notin> set (json_keys (HighscoreList_json hlist))"
    using json_keys_HighscoreList[of hlist] by auto
next
  assume "get_highscores conn public_id limit = Inr hlist"
  then show "\<forall>key mail. get_highscores (with_secrets key mail conn) public_id limit = Inr hlist"
    by (simp add: get_highscores_with_secrets)
next
  show "json_keys (DeletedOut_json dout) = [''ok'', ''deleted'']"
    by (simp add: DeletedOut_json_def)
next
  show "json_keys (ok_json ok) = [''ok'']"
    by (simp add: ok_json_def)
qed

theorem api_key_only_in_create_response_witness:
  "list_games admin_secret demo_db (Some admin_secret) =
     Inr [\<lparr>gi_public_id = lit ''g_0123456789abcdef'', gi_name = lit ''Tetris'',
            gi_created_at = lit ''2025-11-16T10:00:00''\<rparr>,
          \<lparr>gi_public_id = lit ''g_fedcba9876543210'', gi_name = lit ''Pong'',
            gi_created_at = lit ''2025-11-16T10:05:00.250000''\<rparr>] \<and>
   ''api_key'' \<notin> set (json_keys (JArr (map GameInfo_json
       [\<lparr>gi_public_id = lit ''g_0123456789abcdef'', gi_name = lit ''Tetris'',
            gi_created_at = lit ''2025-11-16T10:00:00''\<rparr>,
          \<lparr>gi_public_id = lit ''g_fedcba9876543210'', gi_name = lit ''Pong'',
            gi_created_at = lit ''2025-11-16T10:05:00.250000''\<rparr>]))) \<and>
   get_game admin_secret demo_db (lit ''g_0123456789abcdef'') (Some admin_secret) =
     Inr \<lparr>gi_public_id = lit ''g_0123456789abcdef'', gi_name = lit ''Tetris'',
          gi_created_at = lit ''2025-11-16T10:00:00''\<rparr> \<and>
   get_game admin_secret (with_secrets (\<lambda>g. lit ''sk_other'') (\<lambda>g. lit ''x@example.org'') demo_db)
       (lit ''g_0123456789abcdef'') (Some admin_secret) =
     Inr \<lparr>gi_public_id = lit ''g_0123456789abcdef'', gi_name = lit ''Tetris'',
          gi_created_at = lit ''2025-11-16T10:00:00''\<rparr> \<and>
   json_keys (DeletedOut_json \<lparr>do_ok = True, do_deleted = 3\<rparr>) = [''ok'', ''deleted'']"
proof -
  note t = api_key_only_in_create_response[where A = admin_secret and conn = demo_db
      and x_admin_token = "Some admin_secret" and public_id = "lit ''g_0123456789abcdef''"
      and x_api_key = "Some (lit ''sk_key-of-T'')"]
  note t_list = t[THEN conjunct2, THEN conjunct1, rule_format, OF demo_list_games]
  note t_get = t[THEN conjunct2, THEN conjunct2, THEN conjunct1, rule_format, OF demo_get_game]
  note t_del = api_key_only_in_create_response[where A = admin_secret and conn = demo_db
      and x_admin_token = None and public_id = "lit ''g_0123456789abcdef''"
      and x_api_key = "Some (lit ''sk_key-of-T'')", THEN conjunct2, THEN conjunct2, THEN conjunct2,
      THEN conjunct2, THEN conjunct2, THEN conjunct1, rule_format, OF demo_delete_highscores_T]
  have 1: "''api_key'' \<notin> set (json_keys (JArr (map GameInfo_json
       [\<lparr>gi_public_id = lit ''g_0123456789abcdef'', gi_name = lit ''Tetris'',
            gi_created_at = lit ''2025-11-16T10:00:00''\<rparr>,
          \<lparr>gi_public_id = lit ''g_fedcba9876543210'', gi_name = lit ''Pong'',
            gi_created_at = lit ''2025-11-16T10:05:00.250000''\<rparr>])))"
    using t_list by blast
  have 2: "get_game admin_secret
       (with_secrets (\<lambda>g. lit ''sk_other'') (\<lambda>g. lit ''x@example.org'') demo_db)
       (lit ''g_0123456789abcdef'') (Some admin_secret) =
     Inr \<lparr>gi_public_id = lit ''g_0123456789abcdef'', gi_name = lit ''Tetris'',
          gi_created_at = lit ''2025-11-16T10:00:00''\<rparr>"
    using t_get by blast
  from demo_list_games 1 demo_get_game 2 t_del show ?thesis by blast
qed


section \<open>Deleting a game\<close>

text \<open>
  C5. An authorized \<^verbatim>\<open>delete_game\<close> goes through; afterwards the lookup of the same
  \<^verbatim>\<open>public_id\<close> finds nothing, \<^verbatim>\<open>get_game\<close> and \<^verbatim>\<open>get_highscores\<close> with a valid \<^verbatim>\<open>limit\<close>
  answer NotFound, the game row is gone and no highscore row of the game is left.
\<close>

theorem delete_game_cascade:
  assumes "wf_db conn"
    and "verify_game_ownership_or_admin A conn public_id k a = Inr game"
  shows
    "\<exists>conn'.
       delete_game A conn public_id k a = Inr (conn', True) \<and>
       get_game_by_public_id conn public_id = Some game \<and>
       get_game_by_public_id conn' public_id = None \<and>
       get_game A conn' public_id (Some A) = Inl NotFound \<and>
       (\<forall>limit. Query_limit limit \<noteq> Inl ValidationError \<longrightarrow>
          get_highscores conn' public_id limit = Inl NotFound) \<and>
       game \<notin> set (games conn') \<and>
       (\<forall>r \<in> set (highscores conn'). h_game_id r \<noteq> g_id game) \<and>
       (\<forall>g \<in> set (games conn'). g_id g \<noteq> g_id game)"
proof -
  define conn' where
    "conn' = conn\<lparr>highscores := filter (\<lambda>r. h_game_id r \<noteq> g_id game) (highscores conn),
                    games := filter (\<lambda>g. g_id g \<noteq> g_id game) (games conn)\<rparr>"
  have res: "delete_game A conn public_id k a = Inr (conn', True)"
    by (simp add: delete_game_def assms(2) conn'_def)
  from assms(2) have l: "get_game_by_public_id conn public_id = Some game"
    by (rule verify_InrD)
  from assms(1) have "distinct (map g_public_id (games conn))"
    by (simp add: wf_db_def)
  from lookup_after_delete_game[OF this l]
  have gone: "get_game_by_public_id conn' public_id = None"
    by (simp add: conn'_def get_game_by_public_id_def)
  have info: "get_game A conn' public_id (Some A) = Inl NotFound"
    by (simp add: get_game_def require_admin_token_def gone)
  have top: "\<forall>limit. Query_limit limit \<noteq> Inl ValidationError \<longrightarrow>
        get_highscores conn' public_id limit = Inl NotFound"
    by (auto simp: get_highscores_def gone Query_limit_def split: sum.splits option.splits if_splits)
  have rows: "game \<notin> set (games conn')"
    "\<forall>r \<in> set (highscores conn'). h_game_id r \<noteq> g_id game"
    "\<forall>g \<in> set (games conn'). g_id g \<noteq> g_id game"
    by (simp_all add: conn'_def)
  from res l gone info top rows show ?thesis by blast
qed

theorem delete_game_cascade_witness:
  "wf_db demo_db \<and>
   verify_game_ownership_or_admin admin_secret demo_db (lit ''g_0123456789abcdef'')
     (Some (lit ''sk_key-of-T'')) None = Inr game_T \<and>
   delete_game admin_secret demo_db (lit ''g_0123456789abcdef'')
     (Some (lit ''sk_key-of-T'')) None = Inr (demo_db_T_deleted, True) \<and>
   get_game_by_public_id demo_db (lit ''g_0123456789abcdef'') = Some game_T \<and>
   get_game_by_public_id demo_db_T_deleted (lit ''g_0123456789abcdef'') = None \<and>
   get_game admin_secret demo_db_T_deleted (lit ''g_0123456789abcdef'') (Some admin_secret)
     = Inl NotFound \<and>
   get_highscores demo_db_T_deleted (lit ''g_0123456789abcdef'') (Some 10) = Inl NotFound \<and>
   game_T \<notin> set (games demo_db_T_deleted)"
proof -
  have q: "Query_limit (Some 10) \<noteq> Inl ValidationError"
    by (simp add: Query_limit_def)
  from delete_game_cascade[OF wf_demo_db demo_verify_T]
  obtain conn' where
    r: "delete_game admin_secret demo_db (lit ''g_0123456789abcdef'')
         (Some (lit ''sk_key-of-T'')) None = Inr (conn', True)" and
    p: "get_game_by_public_id conn' (lit ''g_0123456789abcdef'') = None"
       "get_game admin_secret conn' (lit ''g_0123456789abcdef'') (Some admin_secret)
          = Inl NotFound"
       "\<forall>limit. Query_limit limit \<noteq> Inl ValidationError \<longrightarrow>
          get_highscores conn' (lit ''g_0123456789abcdef'') limit = Inl NotFound"
       "game_T \<notin> set (games conn')"
    by blast
  from r have c: "conn' = demo_db_T_deleted"
    by (simp add: demo_delete_game_T)
  from p q wf_demo_db demo_verify_T demo_delete_game_T demo_lookup_T show ?thesis
    unfolding c by blast
qed


section \<open>Deleting the highscores of a game\<close>

text \<open>
  C6. An authorized \<^verbatim>\<open>delete_highscores\<close> goes through; a highscore row is in the store
  afterwards exactly when it was there before and belongs to another game; the games are
  as before; \<^verbatim>\<open>deleted\<close> is the number of rows of the game, which is the number of rows
  that went away; with no row of the game the answer is \<^verbatim>\<open>deleted = 0\<close> and the store is as
  before; and the same request once more answers \<^verbatim>\<open>deleted = 0\<close> and changes nothing.
\<close>

theorem delete_highscores_all_and_only:
  assumes "verify_game_ownership_or_admin A conn public_id k a = Inr game"
  shows
    "\<exists>conn' out.
       delete_highscores A conn public_id k a = Inr (conn', out) \<and>
       (\<forall>r. r \<in> set (highscores conn') \<longleftrightarrow>
            r \<in> set (highscores conn) \<and> h_game_id r \<noteq> g_id game) \<and>
       games conn' = games conn \<and>
       do_ok out \<and>
       do_deleted out = length (filter (\<lambda>r. h_game_id r = g_id game) (highscores conn)) \<and>
       do_deleted out + length (highscores conn') = length (highscores conn) \<and>
       ((\<forall>r \<in> set (highscores conn). h_game_id r \<noteq> g_id game) \<longrightarrow>
          do_deleted out = 0 \<and> conn' = conn) \<and>
       delete_highscores A conn' public_id k a = Inr (conn', \<lparr>do_ok = True, do_deleted = 0\<rparr>)"
proof -
  define conn' where
    "conn' = conn\<lparr>highscores := filter (\<lambda>r. h_game_id r \<noteq> g_id game) (highscores conn)\<rparr>"
  define out where
    "out = \<lparr>do_ok = True,
            do_deleted = length (filter (\<lambda>r. h_game_id r = g_id game) (highscores conn))\<rparr>"
  have first: "delete_highscores A conn public_id k a = Inr (conn', out)"
    by (simp add: delete_highscores_def assms conn'_def out_def)
  have same_games: "games conn' = games conn"
    by (simp add: conn'_def)
  then have "get_game_by_public_id conn' public_id = get_game_by_public_id conn public_id"
    by (simp add: get_game_by_public_id_def)
  with assms have v': "verify_game_ownership_or_admin A conn' public_id k a = Inr game"
    by (simp add: verify_game_ownership_or_admin_def)
  have none_left: "filter (\<lambda>r. h_game_id r = g_id game) (highscores conn') = []"
    by (simp add: conn'_def filter_empty_conv)
  have kept: "filter (\<lambda>r. h_game_id r \<noteq> g_id game) (highscores conn') = highscores conn'"
    by (simp add: conn'_def)
  have again: "delete_highscores A conn' public_id k a = Inr (conn', \<lparr>do_ok = True, do_deleted = 0\<rparr>)"
    by (simp add: delete_highscores_def v' none_left kept)
  have count: "do_deleted out + length (highscores conn') = length (highscores conn)"
    using sum_length_filter_compl[of "\<lambda>r. h_game_id r = g_id game" "highscores conn"]
    by (simp add: conn'_def out_def)
  have untouched: "(\<forall>r \<in> set (highscores conn). h_game_id r \<noteq> g_id game) \<longrightarrow>
          do_deleted out = 0 \<and> conn' = conn"
    by (auto simp: conn'_def out_def filter_empty_conv filter_id_conv)
  show ?thesis
    using first same_games count untouched again
    by (intro exI[of _ conn'] exI[of _ out]) (auto simp: conn'_def out_def)
qed

theorem delete_highscores_all_and_only_witness:
  "verify_game_ownership_or_admin admin_secret demo_db (lit ''g_0123456789abcdef'')
     (Some (lit ''sk_key-of-T'')) None = Inr game_T \<and>
   delete_highscores admin_secret demo_db (lit ''g_0123456789abcdef'')
     (Some (lit ''sk_key-of-T'')) None =
     Inr (demo_db_scores_of_T_deleted, \<lparr>do_ok = True, do_deleted = 3\<rparr>) \<and>
   delete_highscores admin_secret demo_db_scores_of_T_deleted (lit ''g_0123456789abcdef'')
     (Some (lit ''sk_key-of-T'')) None =
     Inr (demo_db_scores_of_T_deleted, \<lparr>do_ok = True, do_deleted = 0\<rparr>)"
proof -
  from delete_highscores_all_and_only[OF demo_verify_T]
  obtain conn' out where
    "delete_highscores admin_secret demo_db (lit ''g_0123456789abcdef'')
       (Some (lit ''sk_key-of-T'')) None = Inr (conn', out)"
    "delete_highscores admin_secret conn' (lit ''g_0123456789abcdef'')
       (Some (lit ''sk_key-of-T'')) None = Inr (conn', \<lparr>do_ok = True, do_deleted = 0\<rparr>)"
    by blast
  with demo_delete_highscores_T demo_verify_T show ?thesis by simp
qed


section \<open>What the two deletions leave alone\<close>

text \<open>
  C7. An authorized \<^verbatim>\<open>delete_highscores\<close> or \<^verbatim>\<open>delete_game\<close> on game T leaves the highscore
  rows of every other game and every other game row as they were, in the same order; for
  every other \<^verbatim>\<open>public_id\<close> the lookup and \<^verbatim>\<open>get_highscores\<close> answer after the deletion what
  they answered before.
\<close>

theorem deletes_leave_other_tenants:
  assumes "wf_db conn"
    and "verify_game_ownership_or_admin A conn public_id k a = Inr game"
  shows
    "\<exists>c1 o1 c2 o2.
       delete_highscores A conn public_id k a = Inr (c1, o1) \<and>
       delete_game A conn public_id k a = Inr (c2, o2) \<and>
       games c1 = games conn \<and>
       filter (\<lambda>r. h_game_id r \<noteq> g_id game) (highscores c1) =
         filter (\<lambda>r. h_game_id r \<noteq> g_id game) (highscores conn) \<and>
       filter (\<lambda>g. g_id g \<noteq> g_id game) (games c2) =
         filter (\<lambda>g. g_id g \<noteq> g_id game) (games conn) \<and>
       filter (\<lambda>r. h_game_id r \<noteq> g_id game) (highscores c2) =
         filter (\<lambda>r. h_game_id r \<noteq> g_id game) (highscores conn) \<and>
       (\<forall>pid' limit. pid' \<noteq> public_id \<longrightarrow>
          get_game_by_public_id c1 pid' = get_game_by_public_id conn pid' \<and>
          get_game_by_public_id c2 pid' = get_game_by_public_id conn pid' \<and>
          get_highscores c1 pid' limit = get_highscores conn pid' limit \<and>
          get_highscores c2 pid' limit = get_highscores conn pid' limit)"
proof -
  define c1 where
    "c1 = conn\<lparr>highscores := filter (\<lambda>r. h_game_id r \<noteq> g_id game) (highscores conn)\<rparr>"
  define c2 where
    "c2 = conn\<lparr>highscores := filter (\<lambda>r. h_game_id r \<noteq> g_id game) (highscores conn),
               games := filter (\<lambda>g. g_id g \<noteq> g_id game) (games conn)\<rparr>"
  define o1 where
    "o1 = \<lparr>do_ok = True,
           do_deleted = length (filter (\<lambda>r. h_game_id r = g_id game) (highscores conn))\<rparr>"
  from assms(2) have l: "get_game_by_public_id conn public_id = Some game"
    by (rule verify_InrD)
  from assms(1) have d: "distinct (map g_id (games conn))"
    by (simp add: wf_db_def)
  have r1: "delete_highscores A conn public_id k a = Inr (c1, o1)"
    by (simp add: delete_highscores_def assms(2) c1_def o1_def)
  have r2: "delete_game A conn public_id k a = Inr (c2, True)"
    by (simp add: delete_game_def assms(2) c2_def)
  have frame1: "games c1 = games conn"
    "filter (\<lambda>r. h_game_id r \<noteq> g_id game) (highscores c1) =
       filter (\<lambda>r. h_game_id r \<noteq> g_id game) (highscores conn)"
    by (simp_all add: c1_def)
  have frame2: "filter (\<lambda>g. g_id g \<noteq> g_id game) (games c2) =
       filter (\<lambda>g. g_id g \<noteq> g_id game) (games conn)"
    "filter (\<lambda>r. h_game_id r \<noteq> g_id game) (highscores c2) =
       filter (\<lambda>r. h_game_id r \<noteq> g_id game) (highscores conn)"
    by (simp_all add: c2_def)
  have obs: "get_game_by_public_id c1 pid' = get_game_by_public_id conn pid' \<and>
          get_game_by_public_id c2 pid' = get_game_by_public_id conn pid' \<and>
          get_highscores c1 pid' limit = get_highscores conn pid' limit \<and>
          get_highscores c2 pid' limit = get_highscores conn pid' limit"
    if ne: "pid' \<noteq> public_id" for pid' limit
  proof -
    have l1: "get_game_by_public_id c1 pid' = get_game_by_public_id conn pid'"
      by (simp add: get_game_by_public_id_def c1_def)
    have l2: "get_game_by_public_id c2 pid' = get_game_by_public_id conn pid'"
      using lookup_other_after_delete_game[OF d l ne]
      by (simp add: get_game_by_public_id_def c2_def)
    have sel: "select_top c1 (g_id u) n = select_top conn (g_id u) n \<and>
               select_top c2 (g_id u) n = select_top conn (g_id u) n"
      if "get_game_by_public_id conn pid' = Some u" for u n
    proof -
      from api_key_of_other_game(2)[OF assms(1) that l ne]
      have "g_id u \<noteq> g_id game" .
      then show ?thesis
        using select_top_other[of "g_id u" "g_id game" conn n]
        by (simp add: c1_def c2_def)
    qed
    have h1: "get_highscores c1 pid' limit = get_highscores conn pid' limit"
      unfolding get_highscores_def l1
      by (auto split: sum.splits option.splits simp: sel)
    have h2: "get_highscores c2 pid' limit = get_highscores conn pid' limit"
      unfolding get_highscores_def l2
      by (auto split: sum.splits option.splits simp: sel)
    from l1 l2 h1 h2 show ?thesis by blast
  qed
  show ?thesis
    using r1 r2 frame1 frame2 obs by blast
qed

theorem deletes_leave_other_tenants_witness:
  "wf_db demo_db \<and>
   verify_game_ownership_or_admin admin_secret demo_db (lit ''g_0123456789abcdef'')
     (Some (lit ''sk_key-of-T'')) None = Inr game_T \<and>
   get_game_by_public_id demo_db_T_deleted (lit ''g_fedcba9876543210'') = Some game_U \<and>
   get_highscores demo_db_T_deleted (lit ''g_fedcba9876543210'') (Some 10) =
     get_highscores demo_db (lit ''g_fedcba9876543210'') (Some 10) \<and>
   get_highscores demo_db_scores_of_T_deleted (lit ''g_fedcba9876543210'') (Some 10) =
     get_highscores demo_db (lit ''g_fedcba9876543210'') (Some 10)"
proof -
  have pids: "lit ''g_fedcba9876543210'' \<noteq> lit ''g_0123456789abcdef''"
    by (simp add: lit_def)
  from deletes_leave_other_tenants[OF wf_demo_db demo_verify_T]
  obtain c1 o1 c2 o2 where
    r: "delete_highscores admin_secret demo_db (lit ''g_0123456789abcdef'')
         (Some (lit ''sk_key-of-T'')) None = Inr (c1, o1)"
       "delete_game admin_secret demo_db (lit ''g_0123456789abcdef'')
         (Some (lit ''sk_key-of-T'')) None = Inr (c2, o2)" and
    f: "\<forall>pid' limit. pid' \<noteq> lit ''g_0123456789abcdef'' \<longrightarrow>
          get_game_by_public_id c1 pid' = get_game_by_public_id demo_db pid' \<and>
          get_game_by_public_id c2 pid' = get_game_by_public_id demo_db pid' \<and>
          get_highscores c1 pid' limit = get_highscores demo_db pid' limit \<and>
          get_highscores c2 pid' limit = get_highscores demo_db pid' limit"
    by blast
  from r have c: "c1 = demo_db_scores_of_T_deleted" "c2 = demo_db_T_deleted"
    by (simp_all add: demo_delete_highscores_T demo_delete_game_T)
  from f[rule_format, OF pids, of "Some 10"] show ?thesis
    unfolding c using wf_demo_db demo_verify_T demo_lookup_U by simp
qed


section \<open>Submitting to an unknown game\<close>

text \<open>
  C8, as the code has it. When no game has the \<^verbatim>\<open>public_id\<close>, \<^verbatim>\<open>submit_highscore\<close> answers NotFound
  for a payload that satisfies \<^verbatim>\<open>HighscoreIn\<close> and a validation error for one that does
  not: the body is checked before the handler looks the game up. Either way the request
  ends in an error and inserts nothing.
\<close>

theorem submit_unknown_game:
  assumes "get_game_by_public_id conn public_id = None"
  shows "submit_highscore conn public_id hs now =
           (if HighscoreIn_valid hs then Inl NotFound else Inl ValidationError)"
  using assms by (simp add: submit_highscore_def)

theorem submit_unknown_game_witness:
  "get_game_by_public_id demo_db (lit ''g_0000000000000000'') = None \<and>
   HighscoreIn_valid \<lparr>hi_player_name = lit '' Ann '', hi_score = 10\<rparr> \<and>
   submit_highscore demo_db (lit ''g_0000000000000000'')
     \<lparr>hi_player_name = lit '' Ann '', hi_score = 10\<rparr> (lit ''2025-11-16T12:00:00'')
     = Inl NotFound"
proof -
  have v: "HighscoreIn_valid \<lparr>hi_player_name = lit '' Ann '', hi_score = 10\<rparr>"
    by (simp add: HighscoreIn_valid_def lit_def)
  from submit_unknown_game[OF demo_lookup_none, of "\<lparr>hi_player_name = lit '' Ann '', hi_score = 10\<rparr>"
      "lit ''2025-11-16T12:00:00''"] v demo_lookup_none
  show ?thesis by simp
qed

text \<open>
  C8, as the specification states it, fails: an empty player name sent to a \<^verbatim>\<open>public_id\<close>
  that no game has is answered with a validation error, not with NotFound.
\<close>

theorem submit_unknown_game_invalid_payload:
  "get_game_by_public_id empty_db (lit ''g_0'') = None \<and>
   \<not> HighscoreIn_valid \<lparr>hi_player_name = [], hi_score = 0\<rparr> \<and>
   submit_highscore empty_db (lit ''g_0'') \<lparr>hi_player_name = [], hi_score = 0\<rparr>
     (lit ''2025-11-16T10:00:00'') = Inl ValidationError \<and>
   submit_highscore empty_db (lit ''g_0'') \<lparr>hi_player_name = [], hi_score = 0\<rparr>
     (lit ''2025-11-16T10:00:00'') \<noteq> Inl NotFound"
  by (simp add: submit_highscore_def HighscoreIn_valid_def get_game_by_public_id_def empty_db_def)


section \<open>A submitted name comes back trimmed\<close>

text \<open>
  C9. A valid submission to a game that exists goes through; the response and the stored
  row carry the player name without its leading and trailing whitespace, the score and the
  time stamp given; the name returned is the name sent with whitespace only removed at both
  ends; and every later \<^verbatim>\<open>get_highscores\<close> on the game returns the projection of the stored
  rows, among them the new row with the trimmed name whenever the row is selected, which it
  is when the game has no more rows than \<^verbatim>\<open>limit\<close>. Stores in which every name is trimmed
  stay so.
\<close>

theorem submit_highscore_trims:
  assumes "HighscoreIn_valid hs" and "get_game_by_public_id conn public_id = Some game"
  shows
    "\<exists>conn' out row.
       submit_highscore conn public_id hs now = Inr (conn', out) \<and>
       out = \<lparr>ho_player_name = strip (hi_player_name hs), ho_score = hi_score hs,
              ho_created_at = now\<rparr> \<and>
       highscores conn' = highscores conn @ [row] \<and>
       games conn' = games conn \<and>
       h_game_id row = g_id game \<and>
       HighscoreOut_of row = out \<and>
       (\<exists>pre suf. hi_player_name hs = pre @ ho_player_name out @ suf \<and>
          (\<forall>c \<in> set pre. isspace c) \<and> (\<forall>c \<in> set suf. isspace c)) \<and>
       (ho_player_name out \<noteq> [] \<longrightarrow>
          \<not> isspace (hd (ho_player_name out)) \<and> \<not> isspace (last (ho_player_name out))) \<and>
       (names_trimmed conn \<longrightarrow> names_trimmed conn') \<and>
       (\<forall>limit n. Query_limit limit = Inr n \<longrightarrow>
          get_highscores conn' public_id limit =
            Inr \<lparr>hl_game_id = public_id,
                 hl_highscores = map HighscoreOut_of (select_top conn' (g_id game) n)\<rparr> \<and>
          (row \<in> set (select_top conn' (g_id game) n) \<longrightarrow>
             out \<in> set (map HighscoreOut_of (select_top conn' (g_id game) n))) \<and>
          (int (length (filter (\<lambda>r. h_game_id r = g_id game) (highscores conn'))) \<le> n \<longrightarrow>
             row \<in> set (select_top conn' (g_id game) n)))"
proof -
  define row where
    "row = \<lparr>h_id = next_rowid (map h_id (highscores conn)), h_game_id = g_id game,
            h_player_name = strip (hi_player_name hs), h_score = hi_score hs,
            h_created_at = now\<rparr>"
  define out where
    "out = \<lparr>ho_player_name = strip (hi_player_name hs), ho_score = hi_score hs,
            ho_created_at = now\<rparr>"
  define conn' where "conn' = conn\<lparr>highscores := highscores conn @ [row]\<rparr>"
  have res: "submit_highscore conn public_id hs now = Inr (conn', out)"
    using assms by (simp add: submit_highscore_def conn'_def row_def out_def)
  have shape: "highscores conn' = highscores conn @ [row]" "games conn' = games conn"
    "h_game_id row = g_id game" "HighscoreOut_of row = out"
    by (simp_all add: conn'_def row_def out_def HighscoreOut_of_def)
  have name: "ho_player_name out = strip (hi_player_name hs)"
    by (simp add: out_def)
  have trimmed: "\<exists>pre suf. hi_player_name hs = pre @ ho_player_name out @ suf \<and>
          (\<forall>c \<in> set pre. isspace c) \<and> (\<forall>c \<in> set suf. isspace c)"
    unfolding name by (rule strip_decomp)
  have ends: "ho_player_name out \<noteq> [] \<longrightarrow>
          \<not> isspace (hd (ho_player_name out)) \<and> \<not> isspace (last (ho_player_name out))"
    unfolding name by (simp add: strip_hd strip_last)
  have inv: "names_trimmed conn \<longrightarrow> names_trimmed conn'"
    using names_trimmed_submit_highscore[OF _ res] by blast
  have l': "get_game_by_public_id conn' public_id = Some game"
    using assms(2) by (simp add: get_game_by_public_id_def shape)
  have later: "get_highscores conn' public_id limit =
            Inr \<lparr>hl_game_id = public_id,
                 hl_highscores = map HighscoreOut_of (select_top conn' (g_id game) n)\<rparr> \<and>
          (row \<in> set (select_top conn' (g_id game) n) \<longrightarrow>
             out \<in> set (map HighscoreOut_of (select_top conn' (g_id game) n))) \<and>
          (int (length (filter (\<lambda>r. h_game_id r = g_id game) (highscores conn'))) \<le> n \<longrightarrow>
             row \<in> set (select_top conn' (g_id game) n))"
    if q: "Query_limit limit = Inr n" for limit n
  proof (intro conjI impI)
    show "get_highscores conn' public_id limit =
            Inr \<lparr>hl_game_id = public_id,
                 hl_highscores = map HighscoreOut_of (select_top conn' (g_id game) n)\<rparr>"
      by (rule get_highscores_found[OF l' q])
    show "out \<in> set (map HighscoreOut_of (select_top conn' (g_id game) n))"
      if "row \<in> set (select_top conn' (g_id game) n)"
      using that shape(4) by force
    show "row \<in> set (select_top conn' (g_id game) n)"
      if "int (length (filter (\<lambda>r. h_game_id r = g_id game) (highscores conn'))) \<le> n"
    proof -
      from select_top_all[OF that]
      have "set (select_top conn' (g_id game) n) =
          set (filter (\<lambda>r. h_game_id r = g_id game) (highscores conn'))"
        by (rule mset_eq_setD)
      then show ?thesis by (simp add: shape)
    qed
  qed
  show ?thesis
    using res shape trimmed ends inv later
    by (intro exI[of _ conn'] exI[of _ out] exI[of _ row]) (simp add: out_def)
qed

theorem submit_highscore_trims_witness:
  "HighscoreIn_valid \<lparr>hi_player_name = lit '' Ann '', hi_score = 10\<rparr> \<and>
   get_game_by_public_id demo_db (lit ''g_0123456789abcdef'') = Some game_T \<and>
   submit_highscore demo_db (lit ''g_0123456789abcdef'')
     \<lparr>hi_player_name = lit '' Ann '', hi_score = 10\<rparr> (lit ''2025-11-16T12:00:00'') =
   Inr (demo_db_Ann_submitted,
        \<lparr>ho_player_name = lit ''Ann'', ho_score = 10, ho_created_at = lit ''2025-11-16T12:00:00''\<rparr>) \<and>
   get_highscores demo_db_Ann_submitted (lit ''g_0123456789abcdef'') None =
     Inr \<lparr>hl_game_id = lit ''g_0123456789abcdef'',
          hl_highscores =
     [\<lparr>ho_player_name = lit ''B'', ho_score = 90, ho_created_at = lit ''2025-11-16T11:00:02''\<rparr>,
      \<lparr>ho_player_name = lit ''C'', ho_score = 90, ho_created_at = lit ''2025-11-16T11:00:02.000001''\<rparr>,
      \<lparr>ho_player_name = lit ''A'', ho_score = 50, ho_created_at = lit ''2025-11-16T11:00:00''\<rparr>,
      \<lparr>ho_player_name = lit ''Ann'', ho_score = 10, ho_created_at = lit ''2025-11-16T12:00:00''\<rparr>]\<rparr>"
proof -
  have q: "Query_limit None = Inr 10"
    by (simp add: Query_limit_def)
  have idT: "g_id game_T = 1"
    by (simp add: game_T_def)
  from submit_highscore_trims[OF demo_payload_valid demo_lookup_T, of "lit ''2025-11-16T12:00:00''"]
  obtain conn' out where
    s: "submit_highscore demo_db (lit ''g_0123456789abcdef'')
          \<lparr>hi_player_name = lit '' Ann '', hi_score = 10\<rparr> (lit ''2025-11-16T12:00:00'') =
        Inr (conn', out)" and
    l: "\<forall>limit n. Query_limit limit = Inr n \<longrightarrow>
          get_highscores conn' (lit ''g_0123456789abcdef'') limit =
            Inr \<lparr>hl_game_id = lit ''g_0123456789abcdef'',
                 hl_highscores = map HighscoreOut_of (select_top conn' (g_id game_T) n)\<rparr>"
    by blast
  from s have c: "conn' = demo_db_Ann_submitted"
    by (simp add: demo_submit_Ann)
  from l[rule_format, OF q]
  have "get_highscores demo_db_Ann_submitted (lit ''g_0123456789abcdef'') None =
      Inr \<lparr>hl_game_id = lit ''g_0123456789abcdef'',
           hl_highscores = map HighscoreOut_of (select_top demo_db_Ann_submitted 1 10)\<rparr>"
    by (simp add: c idT)
  with demo_payload_valid demo_lookup_T demo_submit_Ann show ?thesis
    by (simp only: demo_select_top_Ann simp_thms)
qed


section \<open>Admin-only routes: the token is checked before the game is looked up\<close>

text \<open>
  C10. On \<^verbatim>\<open>list_games\<close> and \<^verbatim>\<open>get_game\<close> a missing or wrong admin token is answered with
  Unauthorized whatever the \<^verbatim>\<open>public_id\<close>, also when no game has it; on the owner-or-admin
  routes a \<^verbatim>\<open>public_id\<close> that no game has is answered with NotFound whatever the credentials.
\<close>

theorem admin_routes_unauthorized_first:
  "(x_admin_token \<noteq> Some ADMIN_TOKEN \<longrightarrow>
      list_games ADMIN_TOKEN conn x_admin_token = Inl Unauthorized \<and>
      get_game ADMIN_TOKEN conn public_id x_admin_token = Inl Unauthorized) \<and>
   (get_game_by_public_id conn public_id = None \<longrightarrow>
      (x_admin_token = Some ADMIN_TOKEN \<longrightarrow>
         get_game ADMIN_TOKEN conn public_id x_admin_token = Inl NotFound) \<and>
      delete_highscores ADMIN_TOKEN conn public_id x_api_key x_admin_token = Inl NotFound \<and>
      delete_game ADMIN_TOKEN conn public_id x_api_key x_admin_token = Inl NotFound)"
  by (simp add: list_games_def get_game_def delete_highscores_def delete_game_def
      verify_game_ownership_or_admin_def require_admin_token_def)

theorem admin_routes_unauthorized_first_witness:
  "get_game_by_public_id empty_db (lit ''g_0'') = None \<and>
   list_games (lit ''change-me'') empty_db None = Inl Unauthorized \<and>
   get_game (lit ''change-me'') empty_db (lit ''g_0'') (Some (lit ''guess'')) = Inl Unauthorized \<and>
   get_game (lit ''change-me'') empty_db (lit ''g_0'') (Some (lit ''change-me'')) = Inl NotFound \<and>
   delete_game (lit ''change-me'') empty_db (lit ''g_0'') None (Some (lit ''guess'')) = Inl NotFound"
  using admin_routes_unauthorized_first
    [of None "lit ''change-me''" empty_db "lit ''g_0''" None]
    admin_routes_unauthorized_first
    [of "Some (lit ''guess'')" "lit ''change-me''" empty_db "lit ''g_0''" None]
    admin_routes_unauthorized_first
    [of "Some (lit ''change-me'')" "lit ''change-me''" empty_db "lit ''g_0''" None]
  by (simp add: get_game_by_public_id_def empty_db_def lit_def)

end
